theory Spec2Isabelle
  imports Main
begin

section \<open>Retrieval of daily PRISM grid data: a model of retrieve\_climate\_data\_from\_prism.py\<close>

text \<open>
  The script asks for two dates, reads the coordinates from the CSV files of the
  directory \<^verbatim>\<open>.coordinates\<close>, posts one request per coordinate to the grid data service
  and appends the rows of every answer to one CSV file under \<^verbatim>\<open>.results\<close>.

  Everything the script touches is explicit here. The \<open>world\<close> is what the script
  changes (standard input and output, the output files, the write buffer of the open
  file); the \<open>env\<close> is what it only reads (the clock, the coordinates directory, the
  remote service, the buffering of the runtime). A Python exception is a value of
  \<open>error\<close>: every procedure returns \<open>(error + result, world)\<close>, the world being the
  one the exception leaves behind.
\<close>

subsection \<open>Data\<close>

datatype error =
    EOFError
  | FileNotFoundError
  | PermissionError
  | NotADirectoryError
  | IsADirectoryError
  | UnicodeDecodeError
  | UnboundLocalError
  | KeyError string
  | TypeError
  | JSONDecodeError
  | Timeout
  | ConnectionError

text \<open>
  A value parsed from JSON. A number keeps its token (\<open>32\<close>, \<open>0.1\<close>): the script
  does no arithmetic on the service's numbers, it hands them to the CSV writer.
  An object is the list of its members; \<open>response.json()\<close> returns a dict, so the
  keys of a parsed object are distinct.
\<close>

datatype jvalue =
    JNull
  | JBool bool
  | JNum string
  | JStr string
  | JArr "jvalue list"
  | JObj "(string \<times> jvalue) list"

text \<open>A row handed to \<open>csv.writer.writerow\<close>: the list of its cells.\<close>

type_synonym row = "jvalue list"

text \<open>
  A row of \<open>csv.DictReader\<close>: a dict from the header's names to the cells. The script
  uses a cell only through \<open>str()\<close> and f-strings, so a cell is the text that these give.
\<close>

type_synonym entry = "string \<rightharpoonup> string"

text \<open>
  The script looks at the characters of one kind of text only, the lines typed at the
  date prompts: such a text is the list of its Unicode code points, and so are the
  two dates, which go on to the request as they were typed. \<open>codes\<close> gives the code
  points of a literal.
\<close>

type_synonym unicode = "nat list"

definition codes :: "string \<Rightarrow> unicode" where
  "codes s = map of_char s"

record params =
  loc :: string
  sdate :: unicode
  edate :: unicode
  grid :: int
  elems :: string

text \<open>
  The answer of the service: \<open>resp_text\<close> is \<open>response.text\<close>, the raw body (\<open>text\<close>
  is a keyword here); \<open>json\<close> is what \<open>response.json()\<close> returns, \<open>None\<close> when
  the body is not JSON (the call raises then).
\<close>

record response =
  status_code :: int
  resp_text :: string
  json :: "jvalue option"

datatype post_outcome = Responded response | Failed error

record env =
  now :: string
  isdecimal :: "nat \<Rightarrow> bool"
  listdir :: "error + string list"
  read_csv :: "string \<Rightarrow> error + entry list"
  post :: "nat \<Rightarrow> params \<Rightarrow> post_outcome"
  auto_flush :: "row list \<Rightarrow> bool"

text \<open>
  \<^item> \<open>now\<close>: the clock, as \<open>strftime('%Y%m%d_%H%M%S')\<close> prints it;
  \<^item> \<open>isdecimal c\<close>: whether the code point \<open>c\<close> is a decimal digit in the Unicode
    database of the running Python (category Nd, \<open>str.isdecimal\<close>): the characters
    that \<^verbatim>\<open>\d\<close> matches in a pattern on \<open>str\<close>;
  \<^item> \<open>listdir\<close>: what \<open>os.listdir('.coordinates')\<close> does, an exception or the names;
  \<^item> \<open>read_csv p\<close>: what opening \<open>p\<close> and reading it with \<open>csv.DictReader\<close> does;
  \<^item> \<open>post k ps\<close>: what the \<open>k\<close>-th call \<open>requests.post(url, ps, timeout=60)\<close> of the
    run does: it returns a response, or raises (\<open>Timeout\<close> after 60 seconds);
  \<^item> \<open>auto_flush buf\<close>: whether the runtime, of its own accord, commits the write
    buffer \<open>buf\<close> to the file after a write (CPython does once its buffer is full).
\<close>

record world =
  stdin :: "unicode list"
  stdout :: "string list"
  dirs :: "string list"
  files :: "string \<rightharpoonup> row list"
  pending :: "row list"

text \<open>
  \<^item> \<open>stdin\<close>: the lines still to be read; \<open>stdout\<close>: the texts printed, one per call;
  \<^item> \<open>dirs\<close>: the directories that exist; \<open>files\<close>: the rows committed to each file;
  \<^item> \<open>pending\<close>: the rows written to the open output file and not yet committed.
\<close>

subsection \<open>Strings\<close>

definition endswith :: "string \<Rightarrow> string \<Rightarrow> bool" where
  "endswith s suf = (length suf \<le> length s \<and> drop (length s - length suf) s = suf)"

fun startswith :: "string \<Rightarrow> string \<Rightarrow> bool" where
  "startswith s [] = True"
| "startswith [] (c # cs) = False"
| "startswith (d # ds) (c # cs) = (d = c \<and> startswith ds cs)"

text \<open>\<open>occurs_in t s\<close>: Python's \<open>t in s\<close> on strings.\<close>

fun occurs_in :: "string \<Rightarrow> string \<Rightarrow> bool" where
  "occurs_in t [] = (t = [])"
| "occurs_in t (c # cs) = (startswith (c # cs) t \<or> occurs_in t cs)"

definition digit_char :: "nat \<Rightarrow> char" where
  "digit_char d = char_of (48 + d)"

function str_nat :: "nat \<Rightarrow> string" where
  "str_nat n = (if n < 10 then [digit_char n] else str_nat (n div 10) @ [digit_char (n mod 10)])"
  by pat_completeness auto
termination
  by (relation "measure (\<lambda>n. n)") auto

declare str_nat.simps [simp del]

text \<open>\<open>str(i)\<close> for an int: the decimal digits, a minus sign before a negative one.\<close>

definition str_int :: "int \<Rightarrow> string" where
  "str_int i = (if i < 0 then CHR ''-'' # str_nat (nat (- i)) else str_nat (nat i))"

subsection \<open>The date prompt\<close>

text \<open>
  The pattern \<^verbatim>\<open>\d{4}-\d{2}-\d{2}\<close>: a sequence of atoms, each repeated a fixed number of
  times. \<open>re.fullmatch\<close> accepts a string when the whole of it matches. \<open>Digit\<close> is
  \<^verbatim>\<open>\d\<close>, which on a \<open>str\<close> matches every Unicode decimal digit; \<open>Lit c\<close> is the
  character with the code point \<open>c\<close>.
\<close>

datatype atom = Digit | Lit nat

type_synonym pattern = "(atom \<times> nat) list"

fun atom_matches :: "(nat \<Rightarrow> bool) \<Rightarrow> atom \<Rightarrow> nat \<Rightarrow> bool" where
  "atom_matches decimal Digit c = decimal c"
| "atom_matches decimal (Lit d) c = (c = d)"

definition fullmatch :: "(nat \<Rightarrow> bool) \<Rightarrow> pattern \<Rightarrow> unicode \<Rightarrow> bool" where
  "fullmatch decimal p s =
     list_all2 (atom_matches decimal) (concat (map (\<lambda>(a, n). replicate n a) p)) s"

definition date_pattern :: pattern where
  "date_pattern =
     [(Digit, 4), (Lit (of_char CHR ''-''), 1), (Digit, 2), (Lit (of_char CHR ''-''), 1), (Digit, 2)]"

definition valid_date :: "env \<Rightarrow> unicode \<Rightarrow> bool" where
  "valid_date E user_input = fullmatch (isdecimal E) date_pattern user_input"

text \<open>
  The loop \<open>while True: user_input = input(prompt) ...\<close> on the lines of standard
  input: \<open>input\<close> prints the prompt, and raises \<open>EOFError\<close> when no line is left.
\<close>

fun ask_date :: "env \<Rightarrow> string \<Rightarrow> unicode list \<Rightarrow> string list \<Rightarrow> (error + unicode) \<times> unicode list \<times> string list" where
  "ask_date E prompt [] out = (Inl EOFError, [], out @ [prompt])"
| "ask_date E prompt (user_input # rest) out =
     (if valid_date E user_input then (Inr user_input, rest, out @ [prompt])
      else ask_date E prompt rest
             (out @ [prompt, ''Incorrect format. Please make sure to follow the YYYY-MM-DD pattern.'']))"

definition get_start_date_input :: "env \<Rightarrow> world \<Rightarrow> (error + unicode) \<times> world" where
  "get_start_date_input E w =
     (case ask_date E ''Start date (YYYY-MM-DD): '' (stdin w) (stdout w) of
        (r, rest, out) \<Rightarrow> (r, w\<lparr>stdin := rest, stdout := out\<rparr>))"

definition get_end_date_input :: "env \<Rightarrow> world \<Rightarrow> (error + unicode) \<times> world" where
  "get_end_date_input E w =
     (case ask_date E ''End date (YYYY-MM-DD): '' (stdin w) (stdout w) of
        (r, rest, out) \<Rightarrow> (r, w\<lparr>stdin := rest, stdout := out\<rparr>))"

subsection \<open>Standard output\<close>

definition print :: "string \<Rightarrow> world \<Rightarrow> world" where
  "print s w = w\<lparr>stdout := stdout w @ [s]\<rparr>"

subsection \<open>The coordinates\<close>

text \<open>
  The loop over the names of the directory. \<open>csv_data_as_dict\<close> is a local variable
  that no line initialises: it is \<open>None\<close> here until a file has been read, and each
  file that is read assigns it anew. An exception leaves the loop with the variable
  as it is.
\<close>

fun read_files :: "env \<Rightarrow> string \<Rightarrow> string list \<Rightarrow> entry list option \<Rightarrow> error option \<times> entry list option" where
  "read_files E directory_path [] csv_data_as_dict = (None, csv_data_as_dict)"
| "read_files E directory_path (filename # rest) csv_data_as_dict =
     (if endswith filename ''.csv'' then
        (case read_csv E (directory_path @ ''/'' @ filename) of
           Inl e \<Rightarrow> (Some e, csv_data_as_dict)
         | Inr rows \<Rightarrow> read_files E directory_path rest (Some rows))
      else read_files E directory_path rest csv_data_as_dict)"

text \<open>
  \<open>return csv_data_as_dict\<close>: reading a local variable that was never assigned raises
  \<open>UnboundLocalError\<close>.
\<close>

definition return_local :: "entry list option \<Rightarrow> world \<Rightarrow> (error + entry list) \<times> world" where
  "return_local csv_data_as_dict w =
     (case csv_data_as_dict of
        None \<Rightarrow> (Inl UnboundLocalError, w)
      | Some rows \<Rightarrow> (Inr rows, w))"

text \<open>
  The two \<open>except\<close> clauses print and fall through to the \<open>return\<close>; any other
  exception leaves the function.
\<close>

definition import_coordinates :: "env \<Rightarrow> world \<Rightarrow> (error + entry list) \<times> world" where
  "import_coordinates E w =
     (let directory_path = ''.coordinates'';
          (raised, csv_data_as_dict) =
            (case listdir E of
               Inl e \<Rightarrow> (Some e, None)
             | Inr names \<Rightarrow> read_files E directory_path names None)
      in case raised of
           None \<Rightarrow> return_local csv_data_as_dict w
         | Some e \<Rightarrow>
             if e = FileNotFoundError then
               return_local csv_data_as_dict
                 (print (''Directory '' @ directory_path @ '' not found.'') w)
             else if e = PermissionError then
               return_local csv_data_as_dict
                 (print (''No permission to read directory '' @ directory_path @ ''.'') w)
             else (Inl e, w))"

subsection \<open>The output file\<close>

definition contents :: "world \<Rightarrow> string \<Rightarrow> row list" where
  "contents w file_path = (case files w file_path of None \<Rightarrow> [] | Some rows \<Rightarrow> rows)"

text \<open>\<open>os.makedirs\<close>, called when the directory does not exist.\<close>

definition makedirs :: "string \<Rightarrow> world \<Rightarrow> world" where
  "makedirs dir_path w = w\<lparr>dirs := dir_path # dirs w\<rparr>"

text \<open>\<open>open(file_path, 'a')\<close>: the file is created when it does not exist, and kept as it is otherwise.\<close>

definition open_append :: "string \<Rightarrow> world \<Rightarrow> world" where
  "open_append file_path w =
     (case files w file_path of
        None \<Rightarrow> w\<lparr>files := (files w)(file_path \<mapsto> []), pending := []\<rparr>
      | Some rows \<Rightarrow> w\<lparr>pending := []\<rparr>)"

text \<open>Committing the buffer: its rows go to the end of the file.\<close>

definition flush :: "string \<Rightarrow> world \<Rightarrow> world" where
  "flush file_path w =
     w\<lparr>files := (files w)(file_path \<mapsto> contents w file_path @ pending w), pending := []\<rparr>"

text \<open>
  \<open>writer.writerow(r)\<close>: the row goes to the buffer of the file, and to the file
  when the runtime decides to commit the buffer. The script itself never asks for it.
\<close>

definition writerow :: "env \<Rightarrow> string \<Rightarrow> row \<Rightarrow> world \<Rightarrow> world" where
  "writerow E file_path r w =
     (let w' = w\<lparr>pending := pending w @ [r]\<rparr>
      in if auto_flush E (pending w') then flush file_path w' else w')"

text \<open>Leaving the \<open>with\<close> block closes the file, which commits the buffer.\<close>

definition close_file :: "string \<Rightarrow> world \<Rightarrow> world" where
  "close_file file_path w = flush file_path w"

text \<open>What the file holds once its buffer is committed.\<close>

definition artifact :: "string \<Rightarrow> world \<Rightarrow> row list" where
  "artifact file_path w = contents w file_path @ pending w"

definition headers :: row where
  "headers = [JStr ''id'', JStr ''date'', JStr ''maxt_F'', JStr ''mint_F'', JStr ''pcpn_inches'']"

subsection \<open>One coordinate\<close>

text \<open>\<open>entry[k]\<close>: a missing key raises \<open>KeyError\<close>.\<close>

definition lookup :: "entry \<Rightarrow> string \<Rightarrow> error + string" where
  "lookup entry k = (case entry k of None \<Rightarrow> Inl (KeyError k) | Some v \<Rightarrow> Inr v)"

text \<open>\<open>json_data[k]\<close> with a string \<open>k\<close>: only a dict can be indexed by a string.\<close>

fun getitem :: "jvalue \<Rightarrow> string \<Rightarrow> error + jvalue" where
  "getitem (JObj members) k =
     (case map_of members k of None \<Rightarrow> Inl (KeyError k) | Some v \<Rightarrow> Inr v)"
| "getitem j k = Inl TypeError"

text \<open>
  \<open>for row in d\<close>: a list gives its elements, a dict its keys, a string its
  characters; anything else is not iterable.
\<close>

fun iterate :: "jvalue \<Rightarrow> error + jvalue list" where
  "iterate (JArr xs) = Inr xs"
| "iterate (JObj members) = Inr (map (\<lambda>(k, v). JStr k) members)"
| "iterate (JStr s) = Inr (map (\<lambda>c. JStr [c]) s)"
| "iterate j = Inl TypeError"

text \<open>
  The inner loop. \<open>[str(id)] + row\<close> is defined for a list \<open>row\<close> only; for any other
  value it raises \<open>TypeError\<close>, after the rows before it have been written.
\<close>

fun write_rows :: "env \<Rightarrow> string \<Rightarrow> string \<Rightarrow> jvalue list \<Rightarrow> world \<Rightarrow> (error + unit) \<times> world" where
  "write_rows E file_path i [] w = (Inr (), w)"
| "write_rows E file_path i (JArr cells # rest) w =
     write_rows E file_path i rest (writerow E file_path (JStr i # cells) w)"
| "write_rows E file_path i (r # rest) w = (Inl TypeError, w)"

definition error_report :: "string \<Rightarrow> string \<Rightarrow> response \<Rightarrow> string" where
  "error_report lon lat r =
     ''Error for coordinates '' @ lon @ '', '' @ lat @ '': '' @ str_int (status_code r) @ '', '' @ resp_text r"

definition make_params :: "string \<Rightarrow> string \<Rightarrow> unicode \<Rightarrow> unicode \<Rightarrow> params" where
  "make_params lon lat sd ed =
     \<lparr>loc = lon @ '','' @ lat, sdate = sd, edate = ed, grid = 21, elems = ''maxt,mint,pcpn''\<rparr>"

text \<open>The body of \<open>for entry in coordinates\<close>, for the \<open>k\<close>-th entry.\<close>

definition process_entry :: "env \<Rightarrow> string \<Rightarrow> unicode \<Rightarrow> unicode \<Rightarrow> nat \<Rightarrow> entry \<Rightarrow> world \<Rightarrow> (error + unit) \<times> world" where
  "process_entry E file_path sd ed k entry w =
     (case lookup entry ''lat'' of Inl e \<Rightarrow> (Inl e, w) | Inr lat \<Rightarrow>
      case lookup entry ''lon'' of Inl e \<Rightarrow> (Inl e, w) | Inr lon \<Rightarrow>
      case lookup entry ''id'' of Inl e \<Rightarrow> (Inl e, w) | Inr i \<Rightarrow>
      case post E k (make_params lon lat sd ed) of
        Failed e \<Rightarrow> (Inl e, w)
      | Responded r \<Rightarrow>
          if status_code r = 200 then
            (case json r of None \<Rightarrow> (Inl JSONDecodeError, w) | Some json_data \<Rightarrow>
             case getitem json_data ''data'' of Inl e \<Rightarrow> (Inl e, w) | Inr d \<Rightarrow>
             case iterate d of Inl e \<Rightarrow> (Inl e, w) | Inr rows \<Rightarrow>
             case write_rows E file_path i rows w of
               (Inl e, w') \<Rightarrow> (Inl e, w')
             | (Inr u, w') \<Rightarrow> (Inr (), print (''Fetching data for id '' @ i @ ''...'') w'))
          else (Inr (), print (error_report lon lat r) w))"

subsection \<open>The run\<close>

fun process_coordinates :: "env \<Rightarrow> string \<Rightarrow> unicode \<Rightarrow> unicode \<Rightarrow> nat \<Rightarrow> entry list \<Rightarrow> world \<Rightarrow> (error + unit) \<times> world" where
  "process_coordinates E file_path sd ed k [] w = (Inr (), w)"
| "process_coordinates E file_path sd ed k (entry # rest) w =
     (case process_entry E file_path sd ed k entry w of
        (Inl e, w') \<Rightarrow> (Inl e, w')
      | (Inr u, w') \<Rightarrow> process_coordinates E file_path sd ed (Suc k) rest w')"

definition completion_notice :: string where
  "completion_notice =
     [CHR 0x0A] @ ''Task complete. Check the '.results' subdirectory for CSV output.'' @ [CHR 0x0A]"

text \<open>The body of the \<open>with\<close> block: the header, the loop, the notice.\<close>

definition with_block :: "env \<Rightarrow> string \<Rightarrow> unicode \<Rightarrow> unicode \<Rightarrow> bool \<Rightarrow> entry list \<Rightarrow> world \<Rightarrow> (error + unit) \<times> world" where
  "with_block E file_path sd ed file_is_empty coordinates w =
     (let w1 = (if file_is_empty then writerow E file_path headers w else w)
      in case process_coordinates E file_path sd ed 0 coordinates w1 of
           (Inl e, w2) \<Rightarrow> (Inl e, w2)
         | (Inr u, w2) \<Rightarrow> (Inr (), print completion_notice w2))"

text \<open>\<open>os.path.dirname\<close>: what stands before the last slash.\<close>

definition dirname :: "string \<Rightarrow> string" where
  "dirname p = rev (tl (dropWhile (\<lambda>c. c \<noteq> CHR ''/'') (rev p)))"

text \<open>
  Lines 107 to 147 of the script: everything after the dates and the coordinates.
  The file is closed on both ways out of the \<open>with\<close> block.
\<close>

definition write_results :: "env \<Rightarrow> unicode \<Rightarrow> unicode \<Rightarrow> entry list \<Rightarrow> world \<Rightarrow> (error + unit) \<times> world" where
  "write_results E sd ed coordinates w =
     (let file_path = ''.results/output_'' @ now E @ ''.csv'';
          dir_path = dirname file_path;
          w1 = (if dir_path \<in> set (dirs w) then w else makedirs dir_path w);
          file_is_empty = (case files w1 file_path of None \<Rightarrow> True | Some rows \<Rightarrow> rows = []);
          (r, w2) = with_block E file_path sd ed file_is_empty coordinates (open_append file_path w1)
      in (r, close_file file_path w2))"

definition fetch_prism_daily_data :: "env \<Rightarrow> world \<Rightarrow> (error + unit) \<times> world" where
  "fetch_prism_daily_data E w =
     (case get_start_date_input E w of (Inl e, w1) \<Rightarrow> (Inl e, w1) | (Inr sd, w1) \<Rightarrow>
      case get_end_date_input E w1 of (Inl e, w2) \<Rightarrow> (Inl e, w2) | (Inr ed, w2) \<Rightarrow>
      case import_coordinates E w2 of (Inl e, w3) \<Rightarrow> (Inl e, w3) | (Inr coordinates, w3) \<Rightarrow>
      write_results E sd ed coordinates w3)"

subsection \<open>Stating the properties\<close>

text \<open>
  The definitions of this subsection are not code of the script: they name what the
  properties below speak about. \<open>reply\<close> is the response that the \<open>k\<close>-th request, the
  one for \<open>entry\<close>, gets; \<open>daily_rows\<close> is the sequence of daily rows of a response
  whose body is a JSON object with a list of lists under \<open>data\<close>.
\<close>

fun cells_of :: "jvalue \<Rightarrow> row option" where
  "cells_of (JArr cells) = Some cells"
| "cells_of j = None"

definition daily_rows :: "response \<Rightarrow> row list option" where
  "daily_rows r =
     (case json r of
        Some (JObj members) \<Rightarrow>
          (case map_of members ''data'' of
             Some (JArr rows) \<Rightarrow> those (map cells_of rows)
           | _ \<Rightarrow> None)
      | _ \<Rightarrow> None)"

definition reply :: "env \<Rightarrow> unicode \<Rightarrow> unicode \<Rightarrow> nat \<Rightarrow> entry \<Rightarrow> response option" where
  "reply E sd ed k entry =
     (case (entry ''lat'', entry ''lon'', entry ''id'') of
        (Some lat, Some lon, Some i) \<Rightarrow>
          (case post E k (make_params lon lat sd ed) of
             Responded r \<Rightarrow> Some r
           | Failed e \<Rightarrow> None)
      | _ \<Rightarrow> None)"

definition succeeds :: "env \<Rightarrow> unicode \<Rightarrow> unicode \<Rightarrow> nat \<Rightarrow> entry \<Rightarrow> bool" where
  "succeeds E sd ed k entry =
     (case reply E sd ed k entry of
        Some r \<Rightarrow> status_code r = 200 \<and> daily_rows r \<noteq> None
      | None \<Rightarrow> False)"

definition fails :: "env \<Rightarrow> unicode \<Rightarrow> unicode \<Rightarrow> nat \<Rightarrow> entry \<Rightarrow> bool" where
  "fails E sd ed k entry =
     (case reply E sd ed k entry of
        Some r \<Rightarrow> status_code r \<noteq> 200
      | None \<Rightarrow> False)"

definition id_of :: "entry \<Rightarrow> string" where
  "id_of entry = (case entry ''id'' of Some i \<Rightarrow> i | None \<Rightarrow> [])"

definition output_rows :: "env \<Rightarrow> unicode \<Rightarrow> unicode \<Rightarrow> nat \<Rightarrow> entry \<Rightarrow> row list" where
  "output_rows E sd ed k entry =
     (case reply E sd ed k entry of
        Some r \<Rightarrow>
          (if status_code r = 200 then
             (case daily_rows r of
                Some days \<Rightarrow> map ((#) (JStr (id_of entry))) days
              | None \<Rightarrow> [])
           else [])
      | None \<Rightarrow> [])"

definition fetching_notice :: "entry \<Rightarrow> string" where
  "fetching_notice entry = ''Fetching data for id '' @ id_of entry @ ''...''"

definition failure_report :: "env \<Rightarrow> unicode \<Rightarrow> unicode \<Rightarrow> nat \<Rightarrow> entry \<Rightarrow> string" where
  "failure_report E sd ed k entry =
     (case (entry ''lat'', entry ''lon'', reply E sd ed k entry) of
        (Some lat, Some lon, Some r) \<Rightarrow> error_report lon lat r
      | _ \<Rightarrow> [])"

definition notice :: "env \<Rightarrow> unicode \<Rightarrow> unicode \<Rightarrow> nat \<Rightarrow> entry \<Rightarrow> string" where
  "notice E sd ed k entry =
     (if succeeds E sd ed k entry then fetching_notice entry else failure_report E sd ed k entry)"

definition output_path :: "env \<Rightarrow> string" where
  "output_path E = ''.results/output_'' @ now E @ ''.csv''"

definition header_part :: "row list \<Rightarrow> row list" where
  "header_part before = (if before = [] then [headers] else [])"

subsection \<open>A run on two coordinates\<close>

text \<open>
  The scenario used to evaluate the theorems: \<open>A1\<close> is answered with two days of data,
  \<open>A2\<close>, whose latitude and longitude are swapped, with status 400.
\<close>

definition coordinate_A1 :: entry where
  "coordinate_A1 = [''id'' \<mapsto> ''A1'', ''lat'' \<mapsto> ''40.0'', ''lon'' \<mapsto> ''-75.0'']"

definition coordinate_A2 :: entry where
  "coordinate_A2 = [''id'' \<mapsto> ''A2'', ''lat'' \<mapsto> ''-75.0'', ''lon'' \<mapsto> ''40.0'']"

definition answer_A1 :: response where
  \<open>answer_A1 =
     \<lparr>status_code = 200,
      resp_text = ''{"data":[["2020-01-01",32,20,0.1],["2020-01-02",30,18,0.0]]}'',
      json = Some (JObj [(''data'', JArr
               [JArr [JStr ''2020-01-01'', JNum ''32'', JNum ''20'', JNum ''0.1''],
                JArr [JStr ''2020-01-02'', JNum ''30'', JNum ''18'', JNum ''0.0'']])])\<rparr>\<close>

definition answer_A2 :: response where
  "answer_A2 = \<lparr>status_code = 400, resp_text = ''Invalid location'', json = None\<rparr>"

text \<open>
  The decimal digits of Unicode 14.0, the database of CPython 3.11: 66 runs of ten
  code points, each from a digit zero to its digit nine. \<open>decimal_zeros\<close> lists the
  zeros.
\<close>

definition decimal_zeros :: "nat list" where
  "decimal_zeros =
     [48, 1632, 1776, 1984, 2406, 2534, 2662, 2790, 2918, 3046,
      3174, 3302, 3430, 3558, 3664, 3792, 3872, 4160, 4240, 6112,
      6160, 6470, 6608, 6784, 6800, 6992, 7088, 7232, 7248, 42528,
      43216, 43264, 43472, 43504, 43600, 44016, 65296, 66720, 68912, 69734,
      69872, 69942, 70096, 70384, 70736, 70864, 71248, 71360, 71472, 71904,
      72016, 72784, 73040, 73120, 92768, 92864, 93008, 120782, 120792, 120802,
      120812, 120822, 123200, 123632, 125264, 130032]"

definition unicode_decimal :: "nat \<Rightarrow> bool" where
  "unicode_decimal c = list_ex (\<lambda>z. z \<le> c \<and> c < z + 10) decimal_zeros"

definition service :: "nat \<Rightarrow> params \<Rightarrow> post_outcome" where
  "service k ps = (if loc ps = ''-75.0,40.0'' then Responded answer_A1 else Responded answer_A2)"

definition scenario :: env where
  "scenario =
     \<lparr>now = ''20230807_093000'',
      isdecimal = unicode_decimal,
      listdir = Inr [''points.csv''],
      read_csv = (\<lambda>p. if p = ''.coordinates/points.csv'' then Inr [coordinate_A1, coordinate_A2]
                       else Inl FileNotFoundError),
      post = service,
      auto_flush = (\<lambda>buf. False)\<rparr>"

definition fresh :: world where
  "fresh = \<lparr>stdin = [codes ''2020-01-01'', codes ''2020-01-02''], stdout = [], dirs = [''.coordinates''],
            files = Map.empty, pending = []\<rparr>"

text \<open>A world in which the first line typed is a date in another order.\<close>

definition retyping :: world where
  "retyping = fresh\<lparr>stdin := [codes ''08-03-2023'', codes ''2023-08-03'']\<rparr>"

text \<open>
  A third coordinate, answered with one day of data, and two services that differ
  from the first one for \<open>A1\<close>: one does not answer within the timeout, the other
  answers with status 200 and a body that has no \<open>data\<close>.
\<close>

definition coordinate_B1 :: entry where
  "coordinate_B1 = [''id'' \<mapsto> ''B1'', ''lat'' \<mapsto> ''41.5'', ''lon'' \<mapsto> ''-76.5'']"

definition answer_B1 :: response where
  \<open>answer_B1 =
     \<lparr>status_code = 200,
      resp_text = ''{"data":[["2020-01-01",31,19,0.2]]}'',
      json = Some (JObj [(''data'', JArr [JArr [JStr ''2020-01-01'', JNum ''31'', JNum ''19'', JNum ''0.2'']])])\<rparr>\<close>

definition slow_service :: "nat \<Rightarrow> params \<Rightarrow> post_outcome" where
  "slow_service k ps = (if loc ps = ''-75.0,40.0'' then Failed Timeout else Responded answer_B1)"

definition slow_scenario :: env where
  "slow_scenario = scenario\<lparr>post := slow_service\<rparr>"

text \<open>A row written for one of the coordinates: its identifier, then the cells of the service.\<close>

definition data_row :: "entry list \<Rightarrow> row \<Rightarrow> bool" where
  "data_row coordinates r =
     (\<exists>entry \<in> set coordinates. \<exists>i cells. entry ''id'' = Some i \<and> r = JStr i # cells)"

text \<open>
  The names that the loader reads, and the rows of one file as \<open>csv.DictReader\<close>
  gives them.
\<close>

definition is_csv :: "string \<Rightarrow> bool" where
  "is_csv filename = endswith filename ''.csv''"

definition rows_of_file :: "env \<Rightarrow> string \<Rightarrow> entry list" where
  "rows_of_file E filename =
     (case read_csv E (''.coordinates/'' @ filename) of Inr rows \<Rightarrow> rows | Inl e \<Rightarrow> [])"

text \<open>Four states of the coordinates directory.\<close>

definition two_files :: env where
  "two_files =
     scenario\<lparr>listdir := Inr [''east.csv'', ''notes.txt'', ''west.csv''],
              read_csv := (\<lambda>p. if p = ''.coordinates/east.csv'' then Inr [coordinate_A1]
                               else if p = ''.coordinates/west.csv'' then Inr [coordinate_B1]
                               else Inl FileNotFoundError)\<rparr>"

definition no_directory :: env where
  "no_directory = scenario\<lparr>listdir := Inl FileNotFoundError\<rparr>"

definition locked_directory :: env where
  "locked_directory = scenario\<lparr>listdir := Inl PermissionError\<rparr>"

definition no_csv_files :: env where
  "no_csv_files = scenario\<lparr>listdir := Inr [''notes.txt'']\<rparr>"

definition answer_no_data :: response where
  \<open>answer_no_data =
     \<lparr>status_code = 200,
      resp_text = ''{"error":"no data available"}'',
      json = Some (JObj [(''error'', JStr ''no data available'')])\<rparr>\<close>

definition garbled_service :: "nat \<Rightarrow> params \<Rightarrow> post_outcome" where
  "garbled_service k ps = (if loc ps = ''-75.0,40.0'' then Responded answer_no_data else Responded answer_B1)"

definition garbled_scenario :: env where
  "garbled_scenario = scenario\<lparr>post := garbled_service\<rparr>"

text \<open>A world in which the artifact of this second already exists, with a header and a row.\<close>

definition rerun :: world where
  "rerun = fresh\<lparr>files := [''.results/output_20230807_093000.csv'' \<mapsto>
                      [headers, [JStr ''Z9'', JStr ''2019-12-31'', JNum ''28'', JNum ''15'', JNum ''0.0'']]]\<rparr>"

section \<open>Properties\<close>

subsection \<open>Printing and writing\<close>

lemma stdout_print [simp]: "stdout (print s w) = stdout w @ [s]"
  by (simp add: print_def)

lemma files_print [simp]: "files (print s w) = files w"
  by (simp add: print_def)

lemma pending_print [simp]: "pending (print s w) = pending w"
  by (simp add: print_def)

lemma artifact_print [simp]: "artifact fp (print s w) = artifact fp w"
  by (simp add: artifact_def contents_def)

lemma stdout_flush [simp]: "stdout (flush fp w) = stdout w"
  by (simp add: flush_def)

lemma pending_flush [simp]: "pending (flush fp w) = []"
  by (simp add: flush_def)

lemma files_flush_same [simp]: "files (flush fp w) fp = Some (artifact fp w)"
  by (simp add: flush_def artifact_def)

lemma files_flush_other: "q \<noteq> fp \<Longrightarrow> files (flush fp w) q = files w q"
  by (simp add: flush_def)

lemma artifact_flush [simp]: "artifact fp (flush fp w) = artifact fp w"
  by (simp add: artifact_def contents_def)

lemma stdout_writerow [simp]: "stdout (writerow E fp r w) = stdout w"
  by (simp add: writerow_def Let_def)

lemma artifact_writerow [simp]: "artifact fp (writerow E fp r w) = artifact fp w @ [r]"
  by (simp add: writerow_def Let_def) (simp add: artifact_def contents_def)

lemma files_writerow_other: "q \<noteq> fp \<Longrightarrow> files (writerow E fp r w) q = files w q"
  by (simp add: writerow_def Let_def files_flush_other)

lemma print_flush: "print s (flush fp w) = flush fp (print s w)"
  by (simp add: print_def flush_def contents_def)

lemma write_rows_lists:
  "write_rows E fp i (map JArr days) w = (r, w') \<Longrightarrow>
     r = Inr () \<and> artifact fp w' = artifact fp w @ map ((#) (JStr i)) days \<and> stdout w' = stdout w"
  by (induction days arbitrary: w) auto

lemma write_rows_any:
  "write_rows E fp i rows w = (r, w') \<Longrightarrow>
     stdout w' = stdout w \<and>
     (\<exists>days. artifact fp w' = artifact fp w @ map ((#) (JStr i)) days \<and> length days \<le> length rows)"
proof (induction E fp i rows w rule: write_rows.induct)
  case (1 E fp i w)
  then show ?case by simp
next
  case (2 E fp i cells rest w)
  from 2 obtain days where
    "stdout w' = stdout w"
    "artifact fp w' = (artifact fp w @ [JStr i # cells]) @ map ((#) (JStr i)) days"
    "length days \<le> length rest"
    by auto
  then have "artifact fp w' = artifact fp w @ map ((#) (JStr i)) (cells # days) \<and> length (cells # days) \<le> length (JArr cells # rest)"
    by simp
  with \<open>stdout w' = stdout w\<close> show ?case by blast
qed auto

lemma files_makedirs [simp]: "files (makedirs d w) = files w"
  by (simp add: makedirs_def)

lemma stdout_makedirs [simp]: "stdout (makedirs d w) = stdout w"
  by (simp add: makedirs_def)

lemma artifact_open [simp]: "artifact fp (open_append fp w) = contents w fp"
  by (simp add: artifact_def open_append_def contents_def split: option.splits)

lemma stdout_open [simp]: "stdout (open_append fp w) = stdout w"
  by (simp add: open_append_def split: option.splits)

lemma contents_makedirs [simp]: "contents (makedirs d w) fp = contents w fp"
  by (simp add: contents_def)

lemma file_is_empty_iff:
  "(case files w fp of None \<Rightarrow> True | Some rows \<Rightarrow> rows = []) \<longleftrightarrow> contents w fp = []"
  by (simp add: contents_def split: option.splits)

lemma write_results_unfold:
  "write_results E sd ed coordinates w =
     (let fp = output_path E;
          w0 = open_append fp (if dirname fp \<in> set (dirs w) then w else makedirs (dirname fp) w);
          (r, w2) = with_block E fp sd ed (contents w fp = []) coordinates w0
      in (r, close_file fp w2))"
  by (simp add: write_results_def output_path_def Let_def file_is_empty_iff)

subsection \<open>One coordinate, and the loop\<close>

lemma those_cells_of: "those (map cells_of rows) = Some days \<longleftrightarrow> rows = map JArr days"
proof (induction rows arbitrary: days)
  case Nil
  then show ?case by auto
next
  case (Cons r rows)
  show ?case
  proof (cases r)
    case (JArr cells)
    with Cons show ?thesis by (cases days) (auto split: option.splits)
  qed (auto)
qed

lemma daily_rows_Some:
  "daily_rows r = Some days \<longleftrightarrow>
     (\<exists>members. json r = Some (JObj members) \<and> map_of members ''data'' = Some (JArr (map JArr days)))"
  by (auto simp: daily_rows_def those_cells_of split: option.splits jvalue.splits)

lemma process_entry_success:
  assumes "entry ''lat'' = Some lat" "entry ''lon'' = Some lon" "entry ''id'' = Some i"
    and "post E k (make_params lon lat sd ed) = Responded r"
    and "status_code r = 200" "daily_rows r = Some days"
  shows "\<exists>w'. process_entry E fp sd ed k entry w = (Inr (), w') \<and>
           artifact fp w' = artifact fp w @ map ((#) (JStr i)) days \<and>
           stdout w' = stdout w @ [''Fetching data for id '' @ i @ ''...'']"
proof -
  from assms(6) obtain members where
    j: "json r = Some (JObj members)" "map_of members ''data'' = Some (JArr (map JArr days))"
    by (auto simp: daily_rows_Some)
  obtain res w1 where wr: "write_rows E fp i (map JArr days) w = (res, w1)"
    by (cases "write_rows E fp i (map JArr days) w")
  from write_rows_lists [OF wr] have
    "res = Inr ()" "artifact fp w1 = artifact fp w @ map ((#) (JStr i)) days" "stdout w1 = stdout w"
    by simp_all
  with assms(1-5) j wr show ?thesis
    by (simp add: process_entry_def lookup_def)
qed

lemma process_entry_failure:
  assumes "entry ''lat'' = Some lat" "entry ''lon'' = Some lon" "entry ''id'' = Some i"
    and "post E k (make_params lon lat sd ed) = Responded r"
    and "status_code r \<noteq> 200"
  shows "process_entry E fp sd ed k entry w = (Inr (), print (error_report lon lat r) w)"
  using assms by (simp add: process_entry_def lookup_def)

lemma served_step:
  assumes "succeeds E sd ed k entry \<or> fails E sd ed k entry"
  shows "\<exists>w'. process_entry E fp sd ed k entry w = (Inr (), w') \<and>
           artifact fp w' = artifact fp w @ output_rows E sd ed k entry \<and>
           stdout w' = stdout w @ [notice E sd ed k entry]"
proof -
  from assms obtain lat lon i r where
    e: "entry ''lat'' = Some lat" "entry ''lon'' = Some lon" "entry ''id'' = Some i"
    and p: "post E k (make_params lon lat sd ed) = Responded r"
    by (auto simp: succeeds_def fails_def reply_def split: option.splits post_outcome.splits)
  then have rep: "reply E sd ed k entry = Some r"
    by (simp add: reply_def)
  show ?thesis
  proof (cases "status_code r = 200")
    case True
    with assms rep obtain days where d: "daily_rows r = Some days"
      by (auto simp: succeeds_def fails_def)
    from process_entry_success [OF e p True d, of fp w] True d rep e show ?thesis
      by (simp add: output_rows_def notice_def succeeds_def fetching_notice_def id_of_def)
  next
    case False
    from process_entry_failure [OF e p False, of fp w] False rep e show ?thesis
      by (simp add: output_rows_def notice_def succeeds_def failure_report_def)
  qed
qed

lemma loop_served:
  assumes "\<forall>(k, entry) \<in> set (enumerate k0 coordinates). succeeds E sd ed k entry \<or> fails E sd ed k entry"
  shows "\<exists>w'. process_coordinates E fp sd ed k0 coordinates w = (Inr (), w') \<and>
           artifact fp w' = artifact fp w @ concat (map (\<lambda>(k, entry). output_rows E sd ed k entry) (enumerate k0 coordinates)) \<and>
           stdout w' = stdout w @ map (\<lambda>(k, entry). notice E sd ed k entry) (enumerate k0 coordinates)"
  using assms
proof (induction coordinates arbitrary: k0 w)
  case Nil
  then show ?case by simp
next
  case (Cons entry rest)
  from Cons.prems have "succeeds E sd ed k0 entry \<or> fails E sd ed k0 entry"
    by simp
  from served_step [OF this, of fp w] obtain w1 where
    s: "process_entry E fp sd ed k0 entry w = (Inr (), w1)"
       "artifact fp w1 = artifact fp w @ output_rows E sd ed k0 entry"
       "stdout w1 = stdout w @ [notice E sd ed k0 entry]"
    by blast
  from Cons.prems have "\<forall>(k, entry) \<in> set (enumerate (Suc k0) rest). succeeds E sd ed k entry \<or> fails E sd ed k entry"
    by simp
  from Cons.IH [OF this, of w1] obtain w2 where
    "process_coordinates E fp sd ed (Suc k0) rest w1 = (Inr (), w2)"
    "artifact fp w2 = artifact fp w1 @ concat (map (\<lambda>(k, entry). output_rows E sd ed k entry) (enumerate (Suc k0) rest))"
    "stdout w2 = stdout w1 @ map (\<lambda>(k, entry). notice E sd ed k entry) (enumerate (Suc k0) rest)"
    by blast
  with s show ?case by simp
qed

lemma loop_append:
  "process_coordinates E fp sd ed k0 (pre @ rest) w =
     (case process_coordinates E fp sd ed k0 pre w of
        (Inl e, w') \<Rightarrow> (Inl e, w')
      | (Inr u, w') \<Rightarrow> process_coordinates E fp sd ed (k0 + length pre) rest w')"
  by (induction pre arbitrary: k0 w) (auto split: prod.splits sum.splits)

lemma no_rows_on_failure: "\<not> succeeds E sd ed k entry \<Longrightarrow> fails E sd ed k entry \<Longrightarrow> output_rows E sd ed k entry = []"
  by (auto simp: succeeds_def fails_def output_rows_def split: option.splits)

lemma concat_successes:
  assumes "\<forall>(k, entry) \<in> set xs. succeeds E sd ed k entry \<or> fails E sd ed k entry"
  shows "concat (map (\<lambda>(k, entry). output_rows E sd ed k entry) xs) =
         concat (map (\<lambda>(k, entry). output_rows E sd ed k entry) (filter (\<lambda>(k, entry). succeeds E sd ed k entry) xs))"
  using assms by (induction xs) (auto simp: no_rows_on_failure)

lemma fails_not_succeeds: "fails E sd ed k entry \<Longrightarrow> \<not> succeeds E sd ed k entry"
  by (auto simp: succeeds_def fails_def split: option.splits)

lemma count_failures:
  assumes "\<forall>(k, entry) \<in> set xs. succeeds E sd ed k entry \<or> fails E sd ed k entry"
  shows "length (filter (\<lambda>(k, entry). fails E sd ed k entry) xs) =
         length xs - length (filter (\<lambda>(k, entry). succeeds E sd ed k entry) xs)"
proof -
  from assms have "filter (\<lambda>(k, entry). fails E sd ed k entry) xs = filter (\<lambda>x. \<not> (\<lambda>(k, entry). succeeds E sd ed k entry) x) xs"
    by (intro filter_cong) (auto dest: fails_not_succeeds)
  moreover have "length (filter (\<lambda>(k, entry). succeeds E sd ed k entry) xs) + length (filter (\<lambda>x. \<not> (\<lambda>(k, entry). succeeds E sd ed k entry) x) xs) = length xs"
    by (rule sum_length_filter_compl)
  ultimately show ?thesis by simp
qed

lemma reply_A1: "reply scenario sd ed k coordinate_A1 = Some answer_A1"
  by (simp add: reply_def coordinate_A1_def scenario_def service_def make_params_def)

lemma reply_A2: "reply scenario sd ed k coordinate_A2 = Some answer_A2"
  by (simp add: reply_def coordinate_A2_def scenario_def service_def make_params_def)

lemma daily_rows_A1:
  "daily_rows answer_A1 =
     Some [[JStr ''2020-01-01'', JNum ''32'', JNum ''20'', JNum ''0.1''],
           [JStr ''2020-01-02'', JNum ''30'', JNum ''18'', JNum ''0.0'']]"
  by (simp add: daily_rows_def answer_A1_def)

lemma str_int_400: "str_int 400 = ''400''"
  by code_simp

lemma report_A2: "failure_report scenario sd ed k coordinate_A2 = ''Error for coordinates 40.0, -75.0: 400, Invalid location''"
  unfolding failure_report_def reply_A2
  by (simp add: error_report_def coordinate_A2_def answer_A2_def str_int_400)

subsection \<open>The date validator\<close>

lemma date_atoms:
  "concat (map (\<lambda>(a, n). replicate n a) date_pattern) =
     [Digit, Digit, Digit, Digit, Lit 45, Digit, Digit, Lit 45, Digit, Digit]"
  by (simp add: date_pattern_def numeral_eq_Suc)

lemma valid_date_iff:
  "valid_date E s \<longleftrightarrow>
     (\<exists>y1 y2 y3 y4 m1 m2 d1 d2.
        s = [y1, y2, y3, y4, 45, m1, m2, 45, d1, d2] \<and>
        isdecimal E y1 \<and> isdecimal E y2 \<and> isdecimal E y3 \<and> isdecimal E y4 \<and>
        isdecimal E m1 \<and> isdecimal E m2 \<and> isdecimal E d1 \<and> isdecimal E d2)"
  unfolding valid_date_def fullmatch_def date_atoms
  by (auto simp: list_all2_Cons1)

lemma ask_date_step:
  "ask_date E prompt (s # rest) out =
     (if valid_date E s then (Inr s, rest, out @ [prompt])
      else ask_date E prompt rest
             (out @ [prompt, ''Incorrect format. Please make sure to follow the YYYY-MM-DD pattern.'']))"
  by simp

lemma ascii_examples:
  assumes "\<forall>c<128. isdecimal E c \<longleftrightarrow> 48 \<le> c \<and> c \<le> 57"
  shows "valid_date E (codes ''2023-99-99'')"
    and "\<not> valid_date E (codes ''08-03-2023'')"
    and "\<not> valid_date E (codes ''2023/08/03'')"
    and "\<not> valid_date E (codes ''2023-8-3'')"
    and "\<not> valid_date E (codes ''2023-0a-03'')"
    and "\<not> valid_date E (codes ''2023-08-03 '')"
  using assms by (simp_all add: valid_date_iff codes_def)

text \<open>
  Claim C4. The validator accepts a string exactly when it has the shape YYYY-MM-DD:
  four digits, a dash (code point 45), two digits, a dash, two digits, where a digit
  is what \<^verbatim>\<open>\d\<close> matches, any decimal digit of Unicode. Both prompts return the line
  typed when it has this shape, and print the complaint and ask again when it has
  not. Nothing of the calendar is checked. Among the characters of ASCII the decimal
  digits are \<open>0\<close> to \<open>9\<close>, in every version of Unicode; so \<open>2023-99-99\<close> is accepted, and
  \<open>08-03-2023\<close>, \<open>2023/08/03\<close>, \<open>2023-8-3\<close>, \<open>2023-0a-03\<close> and a date with a space after
  it are rejected.
\<close>

theorem date_shape:
  "(valid_date E s \<longleftrightarrow>
     (\<exists>y1 y2 y3 y4 m1 m2 d1 d2.
        s = [y1, y2, y3, y4, 45, m1, m2, 45, d1, d2] \<and>
        isdecimal E y1 \<and> isdecimal E y2 \<and> isdecimal E y3 \<and> isdecimal E y4 \<and>
        isdecimal E m1 \<and> isdecimal E m2 \<and> isdecimal E d1 \<and> isdecimal E d2)) \<and>
   (stdin w = s # rest \<longrightarrow>
      get_start_date_input E w =
        (if valid_date E s
         then (Inr s, w\<lparr>stdin := rest, stdout := stdout w @ [''Start date (YYYY-MM-DD): '']\<rparr>)
         else get_start_date_input E
                (w\<lparr>stdin := rest,
                   stdout := stdout w @ [''Start date (YYYY-MM-DD): '',
                     ''Incorrect format. Please make sure to follow the YYYY-MM-DD pattern.'']\<rparr>))) \<and>
   (stdin w = s # rest \<longrightarrow>
      get_end_date_input E w =
        (if valid_date E s
         then (Inr s, w\<lparr>stdin := rest, stdout := stdout w @ [''End date (YYYY-MM-DD): '']\<rparr>)
         else get_end_date_input E
                (w\<lparr>stdin := rest,
                   stdout := stdout w @ [''End date (YYYY-MM-DD): '',
                     ''Incorrect format. Please make sure to follow the YYYY-MM-DD pattern.'']\<rparr>))) \<and>
   ((\<forall>c<128. isdecimal E c \<longleftrightarrow> 48 \<le> c \<and> c \<le> 57) \<longrightarrow>
      valid_date E (codes ''2023-99-99'') \<and>
      \<not> valid_date E (codes ''08-03-2023'') \<and>
      \<not> valid_date E (codes ''2023/08/03'') \<and>
      \<not> valid_date E (codes ''2023-8-3'') \<and>
      \<not> valid_date E (codes ''2023-0a-03'') \<and>
      \<not> valid_date E (codes ''2023-08-03 ''))"
proof (intro conjI impI)
  show "valid_date E s \<longleftrightarrow>
     (\<exists>y1 y2 y3 y4 m1 m2 d1 d2.
        s = [y1, y2, y3, y4, 45, m1, m2, 45, d1, d2] \<and>
        isdecimal E y1 \<and> isdecimal E y2 \<and> isdecimal E y3 \<and> isdecimal E y4 \<and>
        isdecimal E m1 \<and> isdecimal E m2 \<and> isdecimal E d1 \<and> isdecimal E d2)"
    by (rule valid_date_iff)
next
  assume "stdin w = s # rest"
  then show "get_start_date_input E w =
        (if valid_date E s
         then (Inr s, w\<lparr>stdin := rest, stdout := stdout w @ [''Start date (YYYY-MM-DD): '']\<rparr>)
         else get_start_date_input E
                (w\<lparr>stdin := rest,
                   stdout := stdout w @ [''Start date (YYYY-MM-DD): '',
                     ''Incorrect format. Please make sure to follow the YYYY-MM-DD pattern.'']\<rparr>))"
    by (simp add: get_start_date_input_def)
next
  assume "stdin w = s # rest"
  then show "get_end_date_input E w =
        (if valid_date E s
         then (Inr s, w\<lparr>stdin := rest, stdout := stdout w @ [''End date (YYYY-MM-DD): '']\<rparr>)
         else get_end_date_input E
                (w\<lparr>stdin := rest,
                   stdout := stdout w @ [''End date (YYYY-MM-DD): '',
                     ''Incorrect format. Please make sure to follow the YYYY-MM-DD pattern.'']\<rparr>))"
    by (simp add: get_end_date_input_def)
qed (simp_all add: ascii_examples)

lemma ascii_decimal: "\<forall>c<128. unicode_decimal c \<longleftrightarrow> 48 \<le> c \<and> c \<le> 57"
  by (auto simp: unicode_decimal_def decimal_zeros_def)

text \<open>
  With the digits of Unicode 14.0: a date in Arabic-Indic digits is accepted, one
  with a superscript two (code point 178, not a decimal digit) is rejected; a line
  in another order is complained about and the next line is read.
\<close>

theorem date_shape_witness:
  "valid_date scenario (codes ''2023-99-99'') \<and>
   \<not> valid_date scenario (codes ''2023-0a-03'') \<and>
   valid_date scenario [1634, 1632, 1634, 1635, 45, 1632, 1640, 45, 1632, 1635] \<and>
   \<not> valid_date scenario [50, 48, 50, 178, 45, 48, 56, 45, 48, 51] \<and>
   stdin retyping = [codes ''08-03-2023'', codes ''2023-08-03''] \<and>
   get_start_date_input scenario retyping =
     (Inr (codes ''2023-08-03''),
      retyping\<lparr>stdin := [],
        stdout := [''Start date (YYYY-MM-DD): '',
          ''Incorrect format. Please make sure to follow the YYYY-MM-DD pattern.'',
          ''Start date (YYYY-MM-DD): '']\<rparr>)"
proof -
  have a: "\<forall>c<128. isdecimal scenario c \<longleftrightarrow> 48 \<le> c \<and> c \<le> 57"
    using ascii_decimal by (simp add: scenario_def)
  have i: "isdecimal scenario 1632" "isdecimal scenario 1634" "isdecimal scenario 1635"
    "isdecimal scenario 1640" "\<not> isdecimal scenario 178"
    by (simp_all add: scenario_def unicode_decimal_def decimal_zeros_def)
  have r: "stdin retyping = [codes ''08-03-2023'', codes ''2023-08-03'']" "stdout retyping = []"
    by (simp_all add: retyping_def fresh_def)
  note shape = date_shape [THEN conjunct1]
  note ascii = date_shape [THEN conjunct2, THEN conjunct2, THEN conjunct2, THEN mp]
  from ascii [OF a]
  have 1: "valid_date scenario (codes ''2023-99-99'')"
    and 2: "\<not> valid_date scenario (codes ''2023-0a-03'')"
    and 3: "\<not> valid_date scenario (codes ''08-03-2023'')"
    by blast+
  from i have 4: "valid_date scenario [1634, 1632, 1634, 1635, 45, 1632, 1640, 45, 1632, 1635]"
    by (simp add: shape)
  from i have 5: "\<not> valid_date scenario [50, 48, 50, 178, 45, 48, 56, 45, 48, 51]"
    by (simp add: shape)
  from a have 6: "valid_date scenario (codes ''2023-08-03'')"
    by (simp add: shape codes_def)
  from date_shape [where w = retyping and s = "codes ''08-03-2023''" and rest = "[codes ''2023-08-03'']"
      and E = scenario, THEN conjunct2, THEN conjunct1] r 3
  have 7: "get_start_date_input scenario retyping =
      get_start_date_input scenario
        (retyping\<lparr>stdin := [codes ''2023-08-03''],
           stdout := [''Start date (YYYY-MM-DD): '',
             ''Incorrect format. Please make sure to follow the YYYY-MM-DD pattern.'']\<rparr>)"
    by simp
  from date_shape [where w = "retyping\<lparr>stdin := [codes ''2023-08-03''],
           stdout := [''Start date (YYYY-MM-DD): '',
             ''Incorrect format. Please make sure to follow the YYYY-MM-DD pattern.'']\<rparr>"
      and s = "codes ''2023-08-03''" and rest = "[]" and E = scenario,
      THEN conjunct2, THEN conjunct1] 6
  have 8: "get_start_date_input scenario
        (retyping\<lparr>stdin := [codes ''2023-08-03''],
           stdout := [''Start date (YYYY-MM-DD): '',
             ''Incorrect format. Please make sure to follow the YYYY-MM-DD pattern.'']\<rparr>) =
      (Inr (codes ''2023-08-03''),
       retyping\<lparr>stdin := [],
        stdout := [''Start date (YYYY-MM-DD): '',
          ''Incorrect format. Please make sure to follow the YYYY-MM-DD pattern.'',
          ''Start date (YYYY-MM-DD): '']\<rparr>)"
    by simp
  from 1 2 4 5 r(1) 7 8 show ?thesis
    by simp
qed

subsection \<open>Failure isolation\<close>

text \<open>
  Claim C1, as the code has it. Take a run over \<open>N\<close> coordinates in which the request
  of each coordinate is answered, \<open>K\<close> of them with status 200 and a JSON body whose
  \<open>data\<close> is a list of rows, the others with another status. Then the run completes:
  the artifact holds what it held, the header if it was empty, and the rows of
  exactly the \<open>K\<close> successful coordinates, in order; one notice is printed per
  coordinate, a failure report for each of the \<open>N - K\<close> failing ones, and the
  completion notice is printed last.
\<close>

theorem failure_isolation:
  assumes "\<forall>(k, entry) \<in> set (enumerate 0 coordinates). succeeds E sd ed k entry \<or> fails E sd ed k entry"
  shows "\<exists>w'. write_results E sd ed coordinates w = (Inr (), w') \<and>
           files w' (output_path E) =
             Some (contents w (output_path E) @ header_part (contents w (output_path E)) @
                   concat (map (\<lambda>(k, entry). output_rows E sd ed k entry)
                     (filter (\<lambda>(k, entry). succeeds E sd ed k entry) (enumerate 0 coordinates)))) \<and>
           stdout w' = stdout w @ map (\<lambda>(k, entry). notice E sd ed k entry) (enumerate 0 coordinates) @ [completion_notice] \<and>
           length (filter (\<lambda>(k, entry). fails E sd ed k entry) (enumerate 0 coordinates)) =
             length coordinates - length (filter (\<lambda>(k, entry). succeeds E sd ed k entry) (enumerate 0 coordinates))"
proof -
  define fp where "fp = output_path E"
  define w0 where "w0 = open_append fp (if dirname fp \<in> set (dirs w) then w else makedirs (dirname fp) w)"
  define w1 where "w1 = (if contents w fp = [] then writerow E fp headers w0 else w0)"
  have a1: "artifact fp w1 = contents w fp @ header_part (contents w fp)"
    and s1: "stdout w1 = stdout w"
    by (simp_all add: w1_def w0_def header_part_def)
  from loop_served [OF assms, of fp w1] obtain w2 where
    l: "process_coordinates E fp sd ed 0 coordinates w1 = (Inr (), w2)"
       "artifact fp w2 = artifact fp w1 @ concat (map (\<lambda>(k, entry). output_rows E sd ed k entry) (enumerate 0 coordinates))"
       "stdout w2 = stdout w1 @ map (\<lambda>(k, entry). notice E sd ed k entry) (enumerate 0 coordinates)"
    by blast
  have wb: "with_block E fp sd ed (contents w fp = []) coordinates w0 = (Inr (), print completion_notice w2)"
    using l(1) by (simp add: with_block_def w1_def)
  have wr: "write_results E sd ed coordinates w = (Inr (), close_file fp (print completion_notice w2))"
    using wb by (simp add: write_results_unfold fp_def [symmetric] w0_def [symmetric] Let_def)
  have "files (close_file fp (print completion_notice w2)) fp = Some (artifact fp w2)"
    by (simp add: close_file_def)
  moreover have "stdout (close_file fp (print completion_notice w2)) = stdout w2 @ [completion_notice]"
    by (simp add: close_file_def)
  moreover note wr l(2,3) a1 s1 concat_successes [OF assms] count_failures [OF assms]
  ultimately show ?thesis
    by (simp add: fp_def)
qed

theorem failure_isolation_witness:
  "succeeds scenario (codes ''2020-01-01'') (codes ''2020-01-02'') 0 coordinate_A1 \<and>
   fails scenario (codes ''2020-01-01'') (codes ''2020-01-02'') 1 coordinate_A2 \<and>
   (\<exists>w'. write_results scenario (codes ''2020-01-01'') (codes ''2020-01-02'') [coordinate_A1, coordinate_A2] fresh = (Inr (), w') \<and>
      files w' ''.results/output_20230807_093000.csv'' =
        Some [headers,
              [JStr ''A1'', JStr ''2020-01-01'', JNum ''32'', JNum ''20'', JNum ''0.1''],
              [JStr ''A1'', JStr ''2020-01-02'', JNum ''30'', JNum ''18'', JNum ''0.0'']] \<and>
      stdout w' =
        [''Fetching data for id A1...'',
         ''Error for coordinates 40.0, -75.0: 400, Invalid location'',
         completion_notice])"
proof -
  have s: "succeeds scenario (codes ''2020-01-01'') (codes ''2020-01-02'') 0 coordinate_A1"
    by (simp add: succeeds_def reply_A1 daily_rows_A1) (simp add: answer_A1_def)
  have f: "fails scenario (codes ''2020-01-01'') (codes ''2020-01-02'') 1 coordinate_A2"
    by (simp add: fails_def reply_A2) (simp add: answer_A2_def)
  have n: "\<not> succeeds scenario (codes ''2020-01-01'') (codes ''2020-01-02'') 1 coordinate_A2"
    by (simp add: succeeds_def reply_A2) (simp add: answer_A2_def)
  have h: "\<forall>(k, entry) \<in> set (enumerate 0 [coordinate_A1, coordinate_A2]).
             succeeds scenario (codes ''2020-01-01'') (codes ''2020-01-02'') k entry \<or> fails scenario (codes ''2020-01-01'') (codes ''2020-01-02'') k entry"
    using s f by simp
  have p: "output_path scenario = ''.results/output_20230807_093000.csv''"
    by (simp add: output_path_def scenario_def)
  have c: "contents fresh ''.results/output_20230807_093000.csv'' = []"
    by (simp add: contents_def fresh_def)
  have o: "output_rows scenario (codes ''2020-01-01'') (codes ''2020-01-02'') 0 coordinate_A1 =
        [[JStr ''A1'', JStr ''2020-01-01'', JNum ''32'', JNum ''20'', JNum ''0.1''],
         [JStr ''A1'', JStr ''2020-01-02'', JNum ''30'', JNum ''18'', JNum ''0.0'']]"
    by (simp add: output_rows_def reply_A1 daily_rows_A1 id_of_def) (simp add: answer_A1_def coordinate_A1_def)
  have m: "fetching_notice coordinate_A1 = ''Fetching data for id A1...''"
    by (simp add: fetching_notice_def id_of_def coordinate_A1_def)
  have e: "stdout fresh = []"
    by (simp add: fresh_def)
  from failure_isolation [OF h, of fresh] obtain w' where
    "write_results scenario (codes ''2020-01-01'') (codes ''2020-01-02'') [coordinate_A1, coordinate_A2] fresh = (Inr (), w')"
    "files w' (output_path scenario) =
       Some (contents fresh (output_path scenario) @ header_part (contents fresh (output_path scenario)) @
             concat (map (\<lambda>(k, entry). output_rows scenario (codes ''2020-01-01'') (codes ''2020-01-02'') k entry)
               (filter (\<lambda>(k, entry). succeeds scenario (codes ''2020-01-01'') (codes ''2020-01-02'') k entry)
                  (enumerate 0 [coordinate_A1, coordinate_A2]))))"
    "stdout w' = stdout fresh @
       map (\<lambda>(k, entry). notice scenario (codes ''2020-01-01'') (codes ''2020-01-02'') k entry)
         (enumerate 0 [coordinate_A1, coordinate_A2]) @ [completion_notice]"
    by blast
  with s f n show ?thesis
    by (simp add: p c o m e header_part_def notice_def report_A2)
qed

subsection \<open>The rows of a successful coordinate\<close>

text \<open>
  Claim C5. For a coordinate whose request is answered with status 200 and a body
  whose \<open>data\<close> is a sequence of daily rows, the writer appends one row per day, in
  the order of the service: the identifier of the coordinate, then the cells of the
  service's row. For the coordinate \<open>A1\<close> and the two days of the scenario these are
  the two rows of the instance that follows the theorem.
\<close>

theorem rows_prefixed_with_id:
  assumes "entry ''lat'' = Some lat" and "entry ''lon'' = Some lon" and "entry ''id'' = Some i"
    and "post E k (make_params lon lat sd ed) = Responded r"
    and "status_code r = 200"
    and "json r = Some (JObj members)"
    and "map_of members ''data'' = Some (JArr (map JArr days))"
  shows "\<exists>w'. process_entry E fp sd ed k entry w = (Inr (), w') \<and>
           artifact fp w' = artifact fp w @ map (\<lambda>cells. JStr i # cells) days"
proof -
  from assms(6,7) have "daily_rows r = Some days"
    by (auto simp: daily_rows_Some)
  from process_entry_success [OF assms(1-5) this, of fp w] show ?thesis
    by auto
qed

text \<open>The end-to-end scenario of the specification: coordinate \<open>A1\<close>, two days.\<close>

theorem rows_prefixed_with_id_witness:
  "coordinate_A1 ''lat'' = Some ''40.0'' \<and> coordinate_A1 ''lon'' = Some ''-75.0'' \<and>
   coordinate_A1 ''id'' = Some ''A1'' \<and>
   post scenario 0 (make_params ''-75.0'' ''40.0'' (codes ''2020-01-01'') (codes ''2020-01-02'')) = Responded answer_A1 \<and>
   status_code answer_A1 = 200 \<and>
   (\<exists>w'. process_entry scenario (output_path scenario) (codes ''2020-01-01'') (codes ''2020-01-02'') 0 coordinate_A1
           (open_append (output_path scenario) fresh) = (Inr (), w') \<and>
         artifact (output_path scenario) w' =
           [[JStr ''A1'', JStr ''2020-01-01'', JNum ''32'', JNum ''20'', JNum ''0.1''],
            [JStr ''A1'', JStr ''2020-01-02'', JNum ''30'', JNum ''18'', JNum ''0.0'']])"
proof -
  have e: "coordinate_A1 ''lat'' = Some ''40.0''" "coordinate_A1 ''lon'' = Some ''-75.0''"
    "coordinate_A1 ''id'' = Some ''A1''"
    by (simp_all add: coordinate_A1_def)
  have p: "post scenario 0 (make_params ''-75.0'' ''40.0'' (codes ''2020-01-01'') (codes ''2020-01-02'')) = Responded answer_A1"
    by (simp add: scenario_def service_def make_params_def)
  have s: "status_code answer_A1 = 200"
    by (simp add: answer_A1_def)
  have j: "json answer_A1 = Some (JObj [(''data'', JArr (map JArr
             [[JStr ''2020-01-01'', JNum ''32'', JNum ''20'', JNum ''0.1''],
              [JStr ''2020-01-02'', JNum ''30'', JNum ''18'', JNum ''0.0'']]))])"
    by (simp add: answer_A1_def)
  have d: "map_of [(''data'', JArr (map JArr
             [[JStr ''2020-01-01'', JNum ''32'', JNum ''20'', JNum ''0.1''],
              [JStr ''2020-01-02'', JNum ''30'', JNum ''18'', JNum ''0.0'']]))] ''data'' =
           Some (JArr (map JArr
             [[JStr ''2020-01-01'', JNum ''32'', JNum ''20'', JNum ''0.1''],
              [JStr ''2020-01-02'', JNum ''30'', JNum ''18'', JNum ''0.0'']]))"
    by simp
  have c: "contents fresh (output_path scenario) = []"
    by (simp add: contents_def fresh_def)
  from rows_prefixed_with_id [OF e p s j d, of "output_path scenario" "open_append (output_path scenario) fresh"]
  obtain w' where
    "process_entry scenario (output_path scenario) (codes ''2020-01-01'') (codes ''2020-01-02'') 0 coordinate_A1
       (open_append (output_path scenario) fresh) = (Inr (), w')"
    "artifact (output_path scenario) w' =
       artifact (output_path scenario) (open_append (output_path scenario) fresh) @
       map (\<lambda>cells. JStr ''A1'' # cells)
         [[JStr ''2020-01-01'', JNum ''32'', JNum ''20'', JNum ''0.1''],
          [JStr ''2020-01-02'', JNum ''30'', JNum ''18'', JNum ''0.0'']]"
    by blast
  with e p s c show ?thesis
    by simp
qed

subsection \<open>Exceptions in the loop\<close>

lemma close_print: "close_file fp (print s w) = print s (close_file fp w)"
  by (simp add: close_file_def print_flush)

lemma with_block_Inr:
  assumes "with_block E fp sd ed fe coordinates w = (Inr u, wp)"
  shows "\<exists>w2. process_coordinates E fp sd ed 0 coordinates
                 (if fe then writerow E fp headers w else w) = (Inr (), w2) \<and>
              wp = print completion_notice w2"
  using assms by (auto simp: with_block_def Let_def split: prod.splits sum.splits)

lemma run_aborts:
  assumes run: "write_results E sd ed pre w = (Inr (), wp)"
    and stop: "\<And>w1. process_entry E (output_path E) sd ed (length pre) entry w1 = (Inl e, w1)"
  shows "\<exists>w'. write_results E sd ed (pre @ entry # rest) w = (Inl e, w') \<and> wp = print completion_notice w'"
proof -
  define fp where "fp = output_path E"
  define w0 where "w0 = open_append fp (if dirname fp \<in> set (dirs w) then w else makedirs (dirname fp) w)"
  define w1 where "w1 = (if contents w fp = [] then writerow E fp headers w0 else w0)"
  obtain r2 wb where wb: "with_block E fp sd ed (contents w fp = []) pre w0 = (r2, wb)"
    by (cases "with_block E fp sd ed (contents w fp = []) pre w0")
  with run have r2: "r2 = Inr ()" and wp: "wp = close_file fp wb"
    by (simp_all add: write_results_unfold fp_def [symmetric] w0_def [symmetric] Let_def)
  from with_block_Inr [OF wb [unfolded r2]] obtain w2 where
    l: "process_coordinates E fp sd ed 0 pre w1 = (Inr (), w2)" and wb2: "wb = print completion_notice w2"
    by (auto simp: w1_def)
  have "process_coordinates E fp sd ed 0 (pre @ entry # rest) w1 = (Inl e, w2)"
    using l stop [of w2] by (simp add: loop_append fp_def)
  then have "with_block E fp sd ed (contents w fp = []) (pre @ entry # rest) w0 = (Inl e, w2)"
    by (simp add: with_block_def w1_def)
  then have "write_results E sd ed (pre @ entry # rest) w = (Inl e, close_file fp w2)"
    by (simp add: write_results_unfold fp_def [symmetric] w0_def [symmetric] Let_def)
  moreover have "wp = print completion_notice (close_file fp w2)"
    by (simp add: wp wb2 close_print)
  ultimately show ?thesis by blast
qed

text \<open>
  Claim C6, as the code has it. A request that raises (after the timeout of 60
  seconds, or for any other reason) is not a failure of its coordinate only: nothing
  catches the exception. When the run over the coordinates before it would complete in
  the world \<open>wp\<close>, the run stops at this coordinate with the exception, in the world
  \<open>wp\<close> without the completion notice: no report is printed for the coordinate,
  nothing is written for it or for the coordinates after it.
\<close>

theorem timeout_aborts_run:
  assumes "write_results E sd ed pre w = (Inr (), wp)"
    and "entry ''lat'' = Some lat" and "entry ''lon'' = Some lon" and "entry ''id'' = Some i"
    and "post E (length pre) (make_params lon lat sd ed) = Failed e"
  shows "\<exists>w'. write_results E sd ed (pre @ entry # rest) w = (Inl e, w') \<and> wp = print completion_notice w'"
proof (rule run_aborts [OF assms(1)])
  fix w1
  from assms(2-5) show "process_entry E (output_path E) sd ed (length pre) entry w1 = (Inl e, w1)"
    by (simp add: process_entry_def lookup_def)
qed

text \<open>
  Claim C10. A coordinate that is answered with status 200 and a body that is not
  JSON, or that has no \<open>data\<close> to give (an object without the key, or a value that
  no string indexes), stops the whole run: the exception of the parse leaves the loop.
  When the run over the coordinates before it would complete in the world \<open>wp\<close>, the
  run ends with the exception in the world \<open>wp\<close> without the completion notice, so
  no row of a later coordinate is written and the notice is not printed.
\<close>

theorem bad_body_aborts_run:
  assumes "write_results E sd ed pre w = (Inr (), wp)"
    and "entry ''lat'' = Some lat" and "entry ''lon'' = Some lon" and "entry ''id'' = Some i"
    and "post E (length pre) (make_params lon lat sd ed) = Responded r"
    and "status_code r = 200"
    and "json r = None \<or> (\<exists>j e. json r = Some j \<and> getitem j ''data'' = Inl e)"
  shows "\<exists>e w'. write_results E sd ed (pre @ entry # rest) w = (Inl e, w') \<and>
           wp = print completion_notice w' \<and>
           e = (case json r of None \<Rightarrow> JSONDecodeError
                | Some j \<Rightarrow> (case j of JObj members \<Rightarrow> KeyError ''data'' | _ \<Rightarrow> TypeError))"
proof -
  define e where "e = (case json r of None \<Rightarrow> JSONDecodeError
                | Some j \<Rightarrow> (case j of JObj members \<Rightarrow> KeyError ''data'' | _ \<Rightarrow> TypeError))"
  have "process_entry E (output_path E) sd ed (length pre) entry w1 = (Inl e, w1)" for w1
    using assms(2-7)
    by (cases "json r") (auto simp: process_entry_def lookup_def e_def split: jvalue.splits option.splits)
  from run_aborts [OF assms(1) this] show ?thesis
    by (auto simp: e_def)
qed

subsection \<open>The failure report\<close>

text \<open>
  Claim C7, as the code has it. For a coordinate that is answered with a status
  other than 200 the loop body prints one report and goes on: the report names the
  longitude and the latitude of the coordinate, the status code and the raw body. It
  does not name the identifier.
\<close>

theorem failure_report_text:
  assumes "entry ''lat'' = Some lat" and "entry ''lon'' = Some lon" and "entry ''id'' = Some i"
    and "post E k (make_params lon lat sd ed) = Responded r"
    and "status_code r \<noteq> 200"
  shows "process_entry E fp sd ed k entry w =
           (Inr (), print (''Error for coordinates '' @ lon @ '', '' @ lat @ '': '' @
                           str_int (status_code r) @ '', '' @ resp_text r) w)"
  using process_entry_failure [OF assms] by (simp add: error_report_def)

subsection \<open>What any run does to the files\<close>

lemma files_write_rows_other:
  "write_rows E fp i rows w = (r, w') \<Longrightarrow> q \<noteq> fp \<Longrightarrow> files w' q = files w q"
  by (induction E fp i rows w rule: write_rows.induct) (auto simp: files_writerow_other)

lemma data_row_Cons: "data_row rest r \<Longrightarrow> data_row (entry # rest) r"
  by (auto simp: data_row_def)

lemma process_entry_any:
  assumes "process_entry E fp sd ed k entry w = (r, w')"
  shows "\<exists>data. artifact fp w' = artifact fp w @ data \<and> (\<forall>x \<in> set data. data_row [entry] x)"
    and "q \<noteq> fp \<Longrightarrow> files w' q = files w q"
proof -
  have "(\<exists>data. artifact fp w' = artifact fp w @ data \<and> (\<forall>x \<in> set data. data_row [entry] x)) \<and>
        (q \<noteq> fp \<longrightarrow> files w' q = files w q)"
  proof (cases "\<exists>i rows r1 w1. entry ''id'' = Some i \<and> write_rows E fp i rows w = (r1, w1) \<and> (w' = w1 \<or> w' = print (''Fetching data for id '' @ i @ ''...'') w1)")
    case True
    then obtain i rows r1 w1 where
      i: "entry ''id'' = Some i" and wr: "write_rows E fp i rows w = (r1, w1)"
      and w': "w' = w1 \<or> w' = print (''Fetching data for id '' @ i @ ''...'') w1"
      by blast
    from write_rows_any [OF wr] obtain days where
      "artifact fp w1 = artifact fp w @ map ((#) (JStr i)) days"
      by blast
    moreover from i have "\<forall>x \<in> set (map ((#) (JStr i)) days). data_row [entry] x"
      by (auto simp: data_row_def)
    ultimately show ?thesis
      using w' files_write_rows_other [OF wr, of q] by auto
  next
    case False
    with assms have "w' = w \<or> (\<exists>s. w' = print s w)"
      by (auto simp: process_entry_def lookup_def split: sum.splits option.splits post_outcome.splits if_splits prod.splits)
    then have "artifact fp w' = artifact fp w @ []" "files w' q = files w q"
      by auto
    then show ?thesis by fastforce
  qed
  then show "\<exists>data. artifact fp w' = artifact fp w @ data \<and> (\<forall>x \<in> set data. data_row [entry] x)"
    and "q \<noteq> fp \<Longrightarrow> files w' q = files w q"
    by blast+
qed

lemma data_row_head: "data_row [entry] r \<Longrightarrow> data_row (entry # rest) r"
  by (auto simp: data_row_def)

lemma loop_any:
  assumes "process_coordinates E fp sd ed k coordinates w = (r, w')"
  shows "\<exists>data. artifact fp w' = artifact fp w @ data \<and> (\<forall>x \<in> set data. data_row coordinates x)"
    and "q \<noteq> fp \<Longrightarrow> files w' q = files w q"
proof -
  have "(\<exists>data. artifact fp w' = artifact fp w @ data \<and> (\<forall>x \<in> set data. data_row coordinates x)) \<and>
        (q \<noteq> fp \<longrightarrow> files w' q = files w q)"
    using assms
  proof (induction coordinates arbitrary: k w)
    case Nil
    then show ?case by simp
  next
    case (Cons entry rest)
    obtain r1 w1 where s: "process_entry E fp sd ed k entry w = (r1, w1)"
      by (cases "process_entry E fp sd ed k entry w")
    from process_entry_any [OF s] obtain days where
      d: "artifact fp w1 = artifact fp w @ days"
      and dr1: "\<forall>x \<in> set days. data_row [entry] x"
      and f: "q \<noteq> fp \<Longrightarrow> files w1 q = files w q"
      by blast
    from dr1 have dr: "\<forall>x \<in> set days. data_row (entry # rest) x"
      by (auto intro: data_row_head)
    show ?case
    proof (cases r1)
      case (Inl e)
      with s Cons.prems have "w' = w1" by simp
      with d f dr show ?thesis by blast
    next
      case (Inr u)
      with s Cons.prems have "process_coordinates E fp sd ed (Suc k) rest w1 = (r, w')"
        by simp
      from Cons.IH [OF this] obtain data where
        "artifact fp w' = artifact fp w1 @ data" "\<forall>x \<in> set data. data_row rest x"
        and f2: "q \<noteq> fp \<longrightarrow> files w' q = files w1 q"
        by blast
      then have "artifact fp w' = artifact fp w @ (days @ data)"
        "\<forall>x \<in> set (days @ data). data_row (entry # rest) x"
        using d dr by (auto intro: data_row_Cons)
      with f f2 show ?thesis by (metis)
    qed
  qed
  then show "\<exists>data. artifact fp w' = artifact fp w @ data \<and> (\<forall>x \<in> set data. data_row coordinates x)"
    and "q \<noteq> fp \<Longrightarrow> files w' q = files w q"
    by blast+
qed

lemma files_open_other: "q \<noteq> fp \<Longrightarrow> files (open_append fp w) q = files w q"
  by (simp add: open_append_def split: option.splits)

lemma pending_close [simp]: "pending (close_file fp w) = []"
  by (simp add: close_file_def)

lemma files_close_same [simp]: "files (close_file fp w) fp = Some (artifact fp w)"
  by (simp add: close_file_def)

lemma files_close_other: "q \<noteq> fp \<Longrightarrow> files (close_file fp w) q = files w q"
  by (simp add: close_file_def files_flush_other)

lemma with_block_any:
  assumes "with_block E fp sd ed fe coordinates w0 = (r, w2)"
  shows "\<exists>r1 w1. process_coordinates E fp sd ed 0 coordinates
                   (if fe then writerow E fp headers w0 else w0) = (r1, w1) \<and>
           artifact fp w2 = artifact fp w1 \<and> files w2 = files w1"
  using assms by (auto simp: with_block_def Let_def split: prod.splits sum.splits)

lemma write_results_any:
  "\<exists>r w' data. write_results E sd ed coordinates w = (r, w') \<and> pending w' = [] \<and>
     files w' (output_path E) =
       Some (contents w (output_path E) @ header_part (contents w (output_path E)) @ data) \<and>
     (\<forall>x \<in> set data. data_row coordinates x) \<and>
     (\<forall>q. q \<noteq> output_path E \<longrightarrow> files w' q = files w q)"
proof -
  define fp where "fp = output_path E"
  define w0 where "w0 = open_append fp (if dirname fp \<in> set (dirs w) then w else makedirs (dirname fp) w)"
  define w1 where "w1 = (if contents w fp = [] then writerow E fp headers w0 else w0)"
  obtain r w2 where wb: "with_block E fp sd ed (contents w fp = []) coordinates w0 = (r, w2)"
    by (cases "with_block E fp sd ed (contents w fp = []) coordinates w0")
  then have wr: "write_results E sd ed coordinates w = (r, close_file fp w2)"
    by (simp add: write_results_unfold fp_def [symmetric] w0_def [symmetric] Let_def)
  from with_block_any [OF wb] obtain r1 w3 where
    l: "process_coordinates E fp sd ed 0 coordinates w1 = (r1, w3)"
    and e: "artifact fp w2 = artifact fp w3" "files w2 = files w3"
    by (auto simp: w1_def)
  from loop_any(1) [OF l] obtain data where
    d: "artifact fp w3 = artifact fp w1 @ data" "\<forall>x \<in> set data. data_row coordinates x"
    by blast
  have a1: "artifact fp w1 = contents w fp @ header_part (contents w fp)"
    by (simp add: w1_def w0_def header_part_def)
  have o: "files w3 q = files w q" if "q \<noteq> fp" for q
  proof -
    from that have "files w1 q = files w q"
      by (simp add: w1_def w0_def files_writerow_other files_open_other)
    with loop_any(2) [OF l that] show ?thesis by simp
  qed
  have "files (close_file fp w2) fp = Some (contents w fp @ header_part (contents w fp) @ data)"
    by (simp add: e d a1)
  moreover have "\<forall>q. q \<noteq> fp \<longrightarrow> files (close_file fp w2) q = files w q"
    by (simp add: files_close_other e o)
  ultimately show ?thesis
    using wr d(2) unfolding fp_def by (intro exI conjI) (assumption | simp)+
qed

text \<open>
  Claim C2. Whatever the coordinates and the answers, and however the run ends, the
  run appends to the artifact the header row \<open>id, date, maxt_F, mint_F, pcpn_inches\<close>,
  once and only when the artifact did not exist or was empty, and after it nothing
  but rows of the coordinates. An artifact that was new or empty therefore begins
  with the header, and one that began with the header still does, with no second
  header.
\<close>

theorem header_written_once:
  "\<exists>r w' data. write_results E sd ed coordinates w = (r, w') \<and>
     files w' (output_path E) =
       Some (contents w (output_path E) @
             (if contents w (output_path E) = []
              then [[JStr ''id'', JStr ''date'', JStr ''maxt_F'', JStr ''mint_F'', JStr ''pcpn_inches'']]
              else []) @ data) \<and>
     (\<forall>x \<in> set data. data_row coordinates x) \<and>
     (contents w (output_path E) = [] \<longrightarrow>
        files w' (output_path E) =
          Some ([JStr ''id'', JStr ''date'', JStr ''maxt_F'', JStr ''mint_F'', JStr ''pcpn_inches''] # data)) \<and>
     (\<forall>old. contents w (output_path E) =
              [JStr ''id'', JStr ''date'', JStr ''maxt_F'', JStr ''mint_F'', JStr ''pcpn_inches''] # old \<longrightarrow>
        files w' (output_path E) =
          Some ([JStr ''id'', JStr ''date'', JStr ''maxt_F'', JStr ''mint_F'', JStr ''pcpn_inches''] # old @ data))"
proof -
  from write_results_any [of E sd ed coordinates w] obtain r w' data where
    "write_results E sd ed coordinates w = (r, w')"
    "files w' (output_path E) =
       Some (contents w (output_path E) @ header_part (contents w (output_path E)) @ data)"
    "\<forall>x \<in> set data. data_row coordinates x"
    by blast
  then show ?thesis
    by (intro exI [of _ r] exI [of _ w'] exI [of _ data]) (simp add: header_part_def headers_def)
qed

text \<open>
  Claim C9, as the code has it. The file is opened for appending: what the artifact
  held stays in front, and no other file changes. The script never asks for a flush;
  the rows are committed when the runtime decides to, and at the latest when the
  \<open>with\<close> block closes the file, which it does on both ways out. So, whatever the
  buffering, after a run that has ended, normally or by an exception, no row is
  left in the buffer and the artifact holds the rows of all coordinates completed
  before, followed by the rows written for the coordinates after them.
\<close>

theorem committed_at_close:
  assumes "\<forall>(k, entry) \<in> set (enumerate 0 completed). succeeds E sd ed k entry \<or> fails E sd ed k entry"
  shows "\<exists>r w' extra. write_results E sd ed (completed @ rest) w = (r, w') \<and> pending w' = [] \<and>
     files w' (output_path E) =
       Some (contents w (output_path E) @
             (if contents w (output_path E) = [] then [headers] else []) @
             concat (map (\<lambda>(k, entry). output_rows E sd ed k entry) (enumerate 0 completed)) @ extra) \<and>
     (\<forall>q. q \<noteq> output_path E \<longrightarrow> files w' q = files w q)"
proof -
  define fp where "fp = output_path E"
  define w0 where "w0 = open_append fp (if dirname fp \<in> set (dirs w) then w else makedirs (dirname fp) w)"
  define w1 where "w1 = (if contents w fp = [] then writerow E fp headers w0 else w0)"
  from write_results_any [of E sd ed "completed @ rest" w] obtain r w' data where
    wr: "write_results E sd ed (completed @ rest) w = (r, w')" and p: "pending w' = []"
    and f: "files w' fp = Some (contents w fp @ header_part (contents w fp) @ data)"
    and o: "\<forall>q. q \<noteq> fp \<longrightarrow> files w' q = files w q"
    unfolding fp_def by blast
  obtain rb w2 where wb: "with_block E fp sd ed (contents w fp = []) (completed @ rest) w0 = (rb, w2)"
    by (cases "with_block E fp sd ed (contents w fp = []) (completed @ rest) w0")
  with wr have w': "w' = close_file fp w2"
    by (simp add: write_results_unfold fp_def [symmetric] w0_def [symmetric] Let_def)
  from with_block_any [OF wb] obtain r1 w3 where
    l: "process_coordinates E fp sd ed 0 (completed @ rest) w1 = (r1, w3)"
    and e: "artifact fp w2 = artifact fp w3"
    by (auto simp: w1_def)
  from loop_served [OF assms, of fp w1] obtain wc where
    c: "process_coordinates E fp sd ed 0 completed w1 = (Inr (), wc)"
       "artifact fp wc = artifact fp w1 @ concat (map (\<lambda>(k, entry). output_rows E sd ed k entry) (enumerate 0 completed))"
    by blast
  from l c(1) have "process_coordinates E fp sd ed (length completed) rest wc = (r1, w3)"
    by (simp add: loop_append)
  from loop_any(1) [OF this] obtain extra where
    x: "artifact fp w3 = artifact fp wc @ extra"
    by blast
  have a1: "artifact fp w1 = contents w fp @ header_part (contents w fp)"
    by (simp add: w1_def w0_def header_part_def)
  have "files w' fp = Some (contents w fp @ header_part (contents w fp) @
          concat (map (\<lambda>(k, entry). output_rows E sd ed k entry) (enumerate 0 completed)) @ extra)"
    by (simp add: w' e x c(2) a1)
  with wr p o show ?thesis
    unfolding fp_def header_part_def by blast
qed

subsection \<open>The coordinate loader\<close>

lemma read_files_ok:
  assumes "\<forall>f \<in> set names. is_csv f \<longrightarrow> (\<exists>rows. read_csv E (''.coordinates/'' @ f) = Inr rows)"
  shows "read_files E ''.coordinates'' names acc =
           (None, case filter is_csv names of [] \<Rightarrow> acc | f # fs \<Rightarrow> Some (rows_of_file E (last (f # fs))))"
  using assms
proof (induction names arbitrary: acc)
  case Nil
  then show ?case by simp
next
  case (Cons f names)
  show ?case
  proof (cases "is_csv f")
    case True
    with Cons.prems obtain rows where r: "read_csv E (''.coordinates/'' @ f) = Inr rows"
      by auto
    from Cons.prems have "\<forall>f \<in> set names. is_csv f \<longrightarrow> (\<exists>rows. read_csv E (''.coordinates/'' @ f) = Inr rows)"
      by simp
    from Cons.IH [OF this, of "Some rows"] True r show ?thesis
      by (simp add: is_csv_def [symmetric] rows_of_file_def split: list.splits)
  next
    case False
    from Cons.prems have "\<forall>f \<in> set names. is_csv f \<longrightarrow> (\<exists>rows. read_csv E (''.coordinates/'' @ f) = Inr rows)"
      by simp
    from Cons.IH [OF this, of acc] False show ?thesis
      by (simp add: is_csv_def [symmetric])
  qed
qed

text \<open>
  Claim C3, as the code has it. When the directory can be listed, holds at least one
  name that ends in \<open>.csv\<close>, and every such file can be read, the loader returns the
  rows of the last of these files in the order of the listing, as the reader gives
  them: in the order of the file and with no row removed. The rows of the files
  before it are dropped.
\<close>

theorem last_file_wins:
  assumes "listdir E = Inr names"
    and "filter is_csv names \<noteq> []"
    and "\<forall>f \<in> set names. is_csv f \<longrightarrow> (\<exists>rows. read_csv E (''.coordinates/'' @ f) = Inr rows)"
  shows "import_coordinates E w = (Inr (rows_of_file E (last (filter is_csv names))), w)"
proof -
  from assms(2) obtain f fs where "filter is_csv names = f # fs"
    by (cases "filter is_csv names") auto
  with read_files_ok [OF assms(3), of None] assms(1) show ?thesis
    by (simp add: import_coordinates_def return_local_def)
qed

theorem last_file_wins_witness:
  "listdir two_files = Inr [''east.csv'', ''notes.txt'', ''west.csv''] \<and>
   filter is_csv [''east.csv'', ''notes.txt'', ''west.csv''] = [''east.csv'', ''west.csv''] \<and>
   read_csv two_files ''.coordinates/east.csv'' = Inr [coordinate_A1] \<and>
   read_csv two_files ''.coordinates/west.csv'' = Inr [coordinate_B1] \<and>
   import_coordinates two_files fresh = (Inr [coordinate_B1], fresh)"
proof -
  have l: "listdir two_files = Inr [''east.csv'', ''notes.txt'', ''west.csv'']"
    by (simp add: two_files_def scenario_def)
  have c: "filter is_csv [''east.csv'', ''notes.txt'', ''west.csv''] = [''east.csv'', ''west.csv'']"
    by (simp add: is_csv_def endswith_def)
  have e: "read_csv two_files ''.coordinates/east.csv'' = Inr [coordinate_A1]"
    and w: "read_csv two_files ''.coordinates/west.csv'' = Inr [coordinate_B1]"
    by (simp_all add: two_files_def scenario_def)
  have n: "filter is_csv [''east.csv'', ''notes.txt'', ''west.csv''] \<noteq> []"
    unfolding c by simp
  have r: "\<forall>f \<in> set [''east.csv'', ''notes.txt'', ''west.csv'']. is_csv f \<longrightarrow>
             (\<exists>rows. read_csv two_files (''.coordinates/'' @ f) = Inr rows)"
    using e w by (simp add: is_csv_def endswith_def)
  from last_file_wins [OF l n r, of fresh] l c e w show ?thesis
    by (simp add: rows_of_file_def)
qed

text \<open>
  The claim C3 as the specification states it fails: with the files \<open>east.csv\<close> and
  \<open>west.csv\<close> the loader returns the row of \<open>west.csv\<close> only, not the rows of both.
\<close>

theorem union_counterexample:
  "fst (import_coordinates two_files fresh) = Inr [coordinate_B1] \<and>
   concat (map (rows_of_file two_files) (filter is_csv [''east.csv'', ''notes.txt'', ''west.csv''])) =
     [coordinate_A1, coordinate_B1] \<and>
   fst (import_coordinates two_files fresh) \<noteq>
     Inr (concat (map (rows_of_file two_files) (filter is_csv [''east.csv'', ''notes.txt'', ''west.csv''])))"
  by (simp add: import_coordinates_def return_local_def two_files_def scenario_def endswith_def
      is_csv_def rows_of_file_def)

text \<open>
  Claim C8, evaluated. In a directory with no name that ends in \<open>.csv\<close> the loader
  raises \<open>UnboundLocalError\<close> where the claim has an empty result. For a directory that
  does not exist or may not be read it prints its message and raises the same error.
\<close>

theorem loader_unbound_local:
  "import_coordinates no_csv_files fresh = (Inl UnboundLocalError, fresh) \<and>
   import_coordinates no_directory fresh =
     (Inl UnboundLocalError, print ''Directory .coordinates not found.'' fresh) \<and>
   import_coordinates locked_directory fresh =
     (Inl UnboundLocalError, print ''No permission to read directory .coordinates.'' fresh)"
  by (simp add: import_coordinates_def return_local_def no_csv_files_def no_directory_def
      locked_directory_def scenario_def endswith_def)

lemmas run_defs =
  write_results_def with_block_def process_entry_def lookup_def make_params_def
  open_append_def close_file_def flush_def writerow_def makedirs_def print_def contents_def
  dirname_def Let_def

lemmas scenario_defs =
  scenario_def service_def fresh_def coordinate_A1_def coordinate_A2_def coordinate_B1_def
  answer_A1_def answer_A2_def answer_B1_def

subsection \<open>The scenarios, evaluated\<close>

lemma scenario_run:
  "write_results scenario (codes ''2020-01-01'') (codes ''2020-01-02'') [coordinate_A1, coordinate_A2] fresh =
     (Inr (), snd (write_results scenario (codes ''2020-01-01'') (codes ''2020-01-02'') [coordinate_A1, coordinate_A2] fresh))"
  "files (snd (write_results scenario (codes ''2020-01-01'') (codes ''2020-01-02'') [coordinate_A1, coordinate_A2] fresh))
     ''.results/output_20230807_093000.csv'' =
     Some [headers,
        [JStr ''A1'', JStr ''2020-01-01'', JNum ''32'', JNum ''20'', JNum ''0.1''],
        [JStr ''A1'', JStr ''2020-01-02'', JNum ''30'', JNum ''18'', JNum ''0.0'']]"
  by (simp_all add: run_defs scenario_defs error_report_def)

lemma scenario_rerun:
  "files (snd (write_results scenario (codes ''2020-01-01'') (codes ''2020-01-02'') [coordinate_A1, coordinate_A2] rerun))
     ''.results/output_20230807_093000.csv'' =
     Some [headers,
        [JStr ''Z9'', JStr ''2019-12-31'', JNum ''28'', JNum ''15'', JNum ''0.0''],
        [JStr ''A1'', JStr ''2020-01-01'', JNum ''32'', JNum ''20'', JNum ''0.1''],
        [JStr ''A1'', JStr ''2020-01-02'', JNum ''30'', JNum ''18'', JNum ''0.0'']]"
  by (simp add: run_defs scenario_defs rerun_def error_report_def)

lemma path_scenario: "output_path scenario = ''.results/output_20230807_093000.csv''"
  by (simp add: output_path_def scenario_def)

theorem header_written_once_witness:
  "contents fresh (output_path scenario) = [] \<and>
   (\<exists>r w'. write_results scenario (codes ''2020-01-01'') (codes ''2020-01-02'') [coordinate_A1, coordinate_A2] fresh = (r, w') \<and>
      files w' (output_path scenario) =
        Some [[JStr ''id'', JStr ''date'', JStr ''maxt_F'', JStr ''mint_F'', JStr ''pcpn_inches''],
          [JStr ''A1'', JStr ''2020-01-01'', JNum ''32'', JNum ''20'', JNum ''0.1''],
          [JStr ''A1'', JStr ''2020-01-02'', JNum ''30'', JNum ''18'', JNum ''0.0'']]) \<and>
   data_row [coordinate_A1, coordinate_A2]
     [JStr ''A1'', JStr ''2020-01-01'', JNum ''32'', JNum ''20'', JNum ''0.1''] \<and>
   contents rerun (output_path scenario) \<noteq> [] \<and>
   (\<exists>r w'. write_results scenario (codes ''2020-01-01'') (codes ''2020-01-02'') [coordinate_A1, coordinate_A2] rerun = (r, w') \<and>
      files w' (output_path scenario) =
        Some [[JStr ''id'', JStr ''date'', JStr ''maxt_F'', JStr ''mint_F'', JStr ''pcpn_inches''],
          [JStr ''Z9'', JStr ''2019-12-31'', JNum ''28'', JNum ''15'', JNum ''0.0''],
          [JStr ''A1'', JStr ''2020-01-01'', JNum ''32'', JNum ''20'', JNum ''0.1''],
          [JStr ''A1'', JStr ''2020-01-02'', JNum ''30'', JNum ''18'', JNum ''0.0'']])"
proof -
  have c: "contents fresh (output_path scenario) = []"
    by (simp add: path_scenario contents_def fresh_def)
  have c': "contents rerun (output_path scenario) =
      [headers, [JStr ''Z9'', JStr ''2019-12-31'', JNum ''28'', JNum ''15'', JNum ''0.0'']]"
    by (simp add: path_scenario contents_def rerun_def fresh_def)
  from header_written_once [of scenario "codes ''2020-01-01''" "codes ''2020-01-02''" "[coordinate_A1, coordinate_A2]" fresh]
  obtain r w' data where
    1: "write_results scenario (codes ''2020-01-01'') (codes ''2020-01-02'') [coordinate_A1, coordinate_A2] fresh = (r, w')"
    and 2: "files w' (output_path scenario) = Some (headers # data)"
    and 3: "\<forall>x \<in> set data. data_row [coordinate_A1, coordinate_A2] x"
    using c unfolding headers_def by auto
  from 1 scenario_run(2) have 4: "files w' (output_path scenario) =
     Some [headers,
        [JStr ''A1'', JStr ''2020-01-01'', JNum ''32'', JNum ''20'', JNum ''0.1''],
        [JStr ''A1'', JStr ''2020-01-02'', JNum ''30'', JNum ''18'', JNum ''0.0'']]"
    by (simp add: path_scenario)
  with 2 have "data = [[JStr ''A1'', JStr ''2020-01-01'', JNum ''32'', JNum ''20'', JNum ''0.1''],
        [JStr ''A1'', JStr ''2020-01-02'', JNum ''30'', JNum ''18'', JNum ''0.0'']]"
    by simp
  with 3 have 5: "data_row [coordinate_A1, coordinate_A2]
     [JStr ''A1'', JStr ''2020-01-01'', JNum ''32'', JNum ''20'', JNum ''0.1'']"
    by simp
  from header_written_once [of scenario "codes ''2020-01-01''" "codes ''2020-01-02''" "[coordinate_A1, coordinate_A2]" rerun]
  obtain r2 w2 where
    6: "write_results scenario (codes ''2020-01-01'') (codes ''2020-01-02'') [coordinate_A1, coordinate_A2] rerun = (r2, w2)"
    by blast
  with scenario_rerun have 7: "files w2 (output_path scenario) =
        Some [headers,
          [JStr ''Z9'', JStr ''2019-12-31'', JNum ''28'', JNum ''15'', JNum ''0.0''],
          [JStr ''A1'', JStr ''2020-01-01'', JNum ''32'', JNum ''20'', JNum ''0.1''],
          [JStr ''A1'', JStr ''2020-01-02'', JNum ''30'', JNum ''18'', JNum ''0.0'']]"
    by (simp add: path_scenario)
  from c c' 1 4 5 6 7 show ?thesis
    unfolding headers_def by auto
qed

lemma slow_pre:
  "write_results slow_scenario (codes ''2020-01-01'') (codes ''2020-01-02'') [coordinate_B1] fresh =
     (Inr (), snd (write_results slow_scenario (codes ''2020-01-01'') (codes ''2020-01-02'') [coordinate_B1] fresh))"
  "stdout (snd (write_results slow_scenario (codes ''2020-01-01'') (codes ''2020-01-02'') [coordinate_B1] fresh)) =
     [''Fetching data for id B1...'', completion_notice]"
  "files (snd (write_results slow_scenario (codes ''2020-01-01'') (codes ''2020-01-02'') [coordinate_B1] fresh))
     ''.results/output_20230807_093000.csv'' =
     Some [headers, [JStr ''B1'', JStr ''2020-01-01'', JNum ''31'', JNum ''19'', JNum ''0.2'']]"
  by (simp_all add: run_defs scenario_defs slow_scenario_def slow_service_def)

lemma garbled_pre:
  "write_results garbled_scenario (codes ''2020-01-01'') (codes ''2020-01-02'') [coordinate_B1] fresh =
     (Inr (), snd (write_results garbled_scenario (codes ''2020-01-01'') (codes ''2020-01-02'') [coordinate_B1] fresh))"
  "stdout (snd (write_results garbled_scenario (codes ''2020-01-01'') (codes ''2020-01-02'') [coordinate_B1] fresh)) =
     [''Fetching data for id B1...'', completion_notice]"
  "files (snd (write_results garbled_scenario (codes ''2020-01-01'') (codes ''2020-01-02'') [coordinate_B1] fresh))
     ''.results/output_20230807_093000.csv'' =
     Some [headers, [JStr ''B1'', JStr ''2020-01-01'', JNum ''31'', JNum ''19'', JNum ''0.2'']]"
  by (simp_all add: run_defs scenario_defs garbled_scenario_def garbled_service_def)

lemma entry_A1:
  "coordinate_A1 ''lat'' = Some ''40.0''" "coordinate_A1 ''lon'' = Some ''-75.0''"
  "coordinate_A1 ''id'' = Some ''A1''"
  by (simp_all add: coordinate_A1_def)

lemma entry_A2:
  "coordinate_A2 ''lat'' = Some ''-75.0''" "coordinate_A2 ''lon'' = Some ''40.0''"
  "coordinate_A2 ''id'' = Some ''A2''"
  by (simp_all add: coordinate_A2_def)

lemma before_notice:
  assumes "wp = print completion_notice w'" and "stdout wp = out @ [completion_notice]"
  shows "stdout w' = out" and "files w' = files wp"
  using assms by (simp_all add: print_def)

theorem timeout_aborts_run_witness:
  "post slow_scenario 1 (make_params ''-75.0'' ''40.0'' (codes ''2020-01-01'') (codes ''2020-01-02'')) = Failed Timeout \<and>
   (\<exists>w'. write_results slow_scenario (codes ''2020-01-01'') (codes ''2020-01-02'')
            [coordinate_B1, coordinate_A1, coordinate_B1] fresh = (Inl Timeout, w') \<and>
         stdout w' = [''Fetching data for id B1...''] \<and>
         files w' ''.results/output_20230807_093000.csv'' =
           Some [headers, [JStr ''B1'', JStr ''2020-01-01'', JNum ''31'', JNum ''19'', JNum ''0.2'']])"
proof -
  have p: "post slow_scenario (length [coordinate_B1]) (make_params ''-75.0'' ''40.0'' (codes ''2020-01-01'') (codes ''2020-01-02'')) = Failed Timeout"
    by (simp add: slow_scenario_def slow_service_def make_params_def)
  from timeout_aborts_run [OF slow_pre(1) entry_A1 p, of "[coordinate_B1]"] obtain w' where
    r: "write_results slow_scenario (codes ''2020-01-01'') (codes ''2020-01-02'') ([coordinate_B1] @ [coordinate_A1, coordinate_B1]) fresh = (Inl Timeout, w')"
    and n: "snd (write_results slow_scenario (codes ''2020-01-01'') (codes ''2020-01-02'') [coordinate_B1] fresh) = print completion_notice w'"
    by auto
  have o: "stdout (snd (write_results slow_scenario (codes ''2020-01-01'') (codes ''2020-01-02'') [coordinate_B1] fresh)) =
     [''Fetching data for id B1...''] @ [completion_notice]"
    by (simp add: slow_pre(2))
  from before_notice [OF n o] slow_pre(3) r p show ?thesis
    by auto
qed

text \<open>
  The claim C6 as the specification states it fails: \<open>A1\<close> times out and \<open>B1\<close> would be
  answered, yet the run ends with the exception, prints nothing and writes the header
  only.
\<close>

theorem timeout_counterexample:
  "fst (write_results slow_scenario (codes ''2020-01-01'') (codes ''2020-01-02'') [coordinate_A1, coordinate_B1] fresh) = Inl Timeout \<and>
   stdout (snd (write_results slow_scenario (codes ''2020-01-01'') (codes ''2020-01-02'') [coordinate_A1, coordinate_B1] fresh)) = [] \<and>
   files (snd (write_results slow_scenario (codes ''2020-01-01'') (codes ''2020-01-02'') [coordinate_A1, coordinate_B1] fresh))
     ''.results/output_20230807_093000.csv'' = Some [headers]"
  by (simp add: run_defs scenario_defs slow_scenario_def slow_service_def)

text \<open>
  The claim C1 as the specification states it fails: all three requests are answered
  with status 200, none with another status, and the body of the second has no
  \<open>data\<close>. The run ends with an exception: the rows that the answer to the third
  coordinate holds are not written, and the completion notice is not printed.
\<close>

theorem status_200_counterexample:
  "reply garbled_scenario (codes ''2020-01-01'') (codes ''2020-01-02'') 0 coordinate_B1 = Some answer_B1 \<and>
   reply garbled_scenario (codes ''2020-01-01'') (codes ''2020-01-02'') 1 coordinate_A1 = Some answer_no_data \<and>
   reply garbled_scenario (codes ''2020-01-01'') (codes ''2020-01-02'') 2 coordinate_A2 = Some answer_B1 \<and>
   status_code answer_B1 = 200 \<and> status_code answer_no_data = 200 \<and>
   fst (write_results garbled_scenario (codes ''2020-01-01'') (codes ''2020-01-02'')
          [coordinate_B1, coordinate_A1, coordinate_A2] fresh) = Inl (KeyError ''data'') \<and>
   stdout (snd (write_results garbled_scenario (codes ''2020-01-01'') (codes ''2020-01-02'')
          [coordinate_B1, coordinate_A1, coordinate_A2] fresh)) = [''Fetching data for id B1...''] \<and>
   files (snd (write_results garbled_scenario (codes ''2020-01-01'') (codes ''2020-01-02'')
          [coordinate_B1, coordinate_A1, coordinate_A2] fresh)) ''.results/output_20230807_093000.csv'' =
     Some [headers, [JStr ''B1'', JStr ''2020-01-01'', JNum ''31'', JNum ''19'', JNum ''0.2'']]"
  by (simp add: reply_def run_defs scenario_defs garbled_scenario_def garbled_service_def
      answer_no_data_def)

theorem bad_body_aborts_run_witness:
  "post garbled_scenario 1 (make_params ''-75.0'' ''40.0'' (codes ''2020-01-01'') (codes ''2020-01-02'')) = Responded answer_no_data \<and>
   status_code answer_no_data = 200 \<and>
   getitem (JObj [(''error'', JStr ''no data available'')]) ''data'' = Inl (KeyError ''data'') \<and>
   (\<exists>w'. write_results garbled_scenario (codes ''2020-01-01'') (codes ''2020-01-02'')
            [coordinate_B1, coordinate_A1, coordinate_B1] fresh = (Inl (KeyError ''data''), w') \<and>
         stdout w' = [''Fetching data for id B1...''] \<and>
         files w' ''.results/output_20230807_093000.csv'' =
           Some [headers, [JStr ''B1'', JStr ''2020-01-01'', JNum ''31'', JNum ''19'', JNum ''0.2'']])"
proof -
  have p: "post garbled_scenario (length [coordinate_B1]) (make_params ''-75.0'' ''40.0'' (codes ''2020-01-01'') (codes ''2020-01-02'')) = Responded answer_no_data"
    by (simp add: garbled_scenario_def garbled_service_def make_params_def)
  have s: "status_code answer_no_data = 200"
    by (simp add: answer_no_data_def)
  have g: "getitem (JObj [(''error'', JStr ''no data available'')]) ''data'' = Inl (KeyError ''data'')"
    by simp
  have j: "json answer_no_data = Some (JObj [(''error'', JStr ''no data available'')])"
    by (simp add: answer_no_data_def)
  from j g have b: "json answer_no_data = None \<or> (\<exists>j e. json answer_no_data = Some j \<and> getitem j ''data'' = Inl e)"
    by blast
  from bad_body_aborts_run [OF garbled_pre(1) entry_A1 p s b, of "[coordinate_B1]"] obtain w' where
    r: "write_results garbled_scenario (codes ''2020-01-01'') (codes ''2020-01-02'') ([coordinate_B1] @ [coordinate_A1, coordinate_B1]) fresh = (Inl (KeyError ''data''), w')"
    and n: "snd (write_results garbled_scenario (codes ''2020-01-01'') (codes ''2020-01-02'') [coordinate_B1] fresh) = print completion_notice w'"
    by (auto simp: j)
  have o: "stdout (snd (write_results garbled_scenario (codes ''2020-01-01'') (codes ''2020-01-02'') [coordinate_B1] fresh)) =
     [''Fetching data for id B1...''] @ [completion_notice]"
    by (simp add: garbled_pre(2))
  from before_notice [OF n o] garbled_pre(3) r p s g show ?thesis
    by auto
qed

theorem failure_report_text_witness:
  "post scenario 1 (make_params ''40.0'' ''-75.0'' (codes ''2020-01-01'') (codes ''2020-01-02'')) = Responded answer_A2 \<and>
   status_code answer_A2 \<noteq> 200 \<and>
   process_entry scenario (output_path scenario) (codes ''2020-01-01'') (codes ''2020-01-02'') 1 coordinate_A2 fresh =
     (Inr (), print ''Error for coordinates 40.0, -75.0: 400, Invalid location'' fresh)"
proof -
  have p: "post scenario 1 (make_params ''40.0'' ''-75.0'' (codes ''2020-01-01'') (codes ''2020-01-02'')) = Responded answer_A2"
    by (simp add: scenario_def service_def make_params_def)
  have s: "status_code answer_A2 \<noteq> 200"
    by (simp add: answer_A2_def)
  have t: "str_int (status_code answer_A2) = ''400''" "resp_text answer_A2 = ''Invalid location''"
    by (simp_all add: answer_A2_def str_int_400)
  from failure_report_text [OF entry_A2 p s, of "output_path scenario" fresh] p s show ?thesis
    by (simp add: t)
qed

text \<open>
  The claim C7 as the specification states it fails: the report printed for \<open>A2\<close>
  does not contain its identifier.
\<close>

theorem report_without_id_counterexample:
  "process_entry scenario (output_path scenario) (codes ''2020-01-01'') (codes ''2020-01-02'') 1 coordinate_A2 fresh =
     (Inr (), print ''Error for coordinates 40.0, -75.0: 400, Invalid location'' fresh) \<and>
   coordinate_A2 ''id'' = Some ''A2'' \<and>
   \<not> occurs_in ''A2'' ''Error for coordinates 40.0, -75.0: 400, Invalid location''"
  by (simp add: process_entry_def lookup_def make_params_def scenario_defs error_report_def str_int_400)

theorem committed_at_close_witness:
  "succeeds slow_scenario (codes ''2020-01-01'') (codes ''2020-01-02'') 0 coordinate_B1 \<and>
   (\<exists>w'. write_results slow_scenario (codes ''2020-01-01'') (codes ''2020-01-02'')
            ([coordinate_B1] @ [coordinate_A1, coordinate_B1]) fresh = (Inl Timeout, w') \<and>
         pending w' = [] \<and>
         files w' ''.results/output_20230807_093000.csv'' =
           Some [headers, [JStr ''B1'', JStr ''2020-01-01'', JNum ''31'', JNum ''19'', JNum ''0.2'']])"
proof -
  have s: "succeeds slow_scenario (codes ''2020-01-01'') (codes ''2020-01-02'') 0 coordinate_B1"
    by (simp add: succeeds_def reply_def daily_rows_def make_params_def scenario_defs slow_scenario_def slow_service_def)
  then have h: "\<forall>(k, entry) \<in> set (enumerate 0 [coordinate_B1]).
      succeeds slow_scenario (codes ''2020-01-01'') (codes ''2020-01-02'') k entry \<or> fails slow_scenario (codes ''2020-01-01'') (codes ''2020-01-02'') k entry"
    by simp
  have e: "fst (write_results slow_scenario (codes ''2020-01-01'') (codes ''2020-01-02'') ([coordinate_B1] @ [coordinate_A1, coordinate_B1]) fresh) = Inl Timeout"
    "files (snd (write_results slow_scenario (codes ''2020-01-01'') (codes ''2020-01-02'') ([coordinate_B1] @ [coordinate_A1, coordinate_B1]) fresh))
       ''.results/output_20230807_093000.csv'' =
     Some [headers, [JStr ''B1'', JStr ''2020-01-01'', JNum ''31'', JNum ''19'', JNum ''0.2'']]"
    by (simp_all add: run_defs scenario_defs slow_scenario_def slow_service_def)
  from committed_at_close [OF h, of "[coordinate_A1, coordinate_B1]" fresh] obtain r w' where
    "write_results slow_scenario (codes ''2020-01-01'') (codes ''2020-01-02'') ([coordinate_B1] @ [coordinate_A1, coordinate_B1]) fresh = (r, w')"
    "pending w' = []"
    by blast
  with e s show ?thesis
    by auto
qed

text \<open>
  The claim C9 as the specification states it fails for a runtime that keeps the rows
  in its buffer (as CPython does while its buffer is not full): when \<open>A1\<close> has been
  processed and the next coordinate is due, the file is still empty, the header and
  both rows of \<open>A1\<close> are in the buffer.
\<close>

theorem unflushed_counterexample:
  "auto_flush scenario [headers] = False \<and>
   fst (process_entry scenario (output_path scenario) (codes ''2020-01-01'') (codes ''2020-01-02'') 0 coordinate_A1
          (writerow scenario (output_path scenario) headers (open_append (output_path scenario) fresh))) = Inr () \<and>
   files (snd (process_entry scenario (output_path scenario) (codes ''2020-01-01'') (codes ''2020-01-02'') 0 coordinate_A1
          (writerow scenario (output_path scenario) headers (open_append (output_path scenario) fresh))))
     (output_path scenario) = Some [] \<and>
   pending (snd (process_entry scenario (output_path scenario) (codes ''2020-01-01'') (codes ''2020-01-02'') 0 coordinate_A1
          (writerow scenario (output_path scenario) headers (open_append (output_path scenario) fresh)))) =
     [headers,
      [JStr ''A1'', JStr ''2020-01-01'', JNum ''32'', JNum ''20'', JNum ''0.1''],
      [JStr ''A1'', JStr ''2020-01-02'', JNum ''30'', JNum ''18'', JNum ''0.0'']]"
  by (simp add: run_defs scenario_defs output_path_def)

lemma scenario_end_to_end:
  "fst (fetch_prism_daily_data scenario fresh) = Inr ()"
  "stdin (snd (fetch_prism_daily_data scenario fresh)) = []"
  "stdout (snd (fetch_prism_daily_data scenario fresh)) =
     [''Start date (YYYY-MM-DD): '', ''End date (YYYY-MM-DD): '',
      ''Fetching data for id A1...'',
      ''Error for coordinates 40.0, -75.0: 400, Invalid location'',
      completion_notice]"
  "files (snd (fetch_prism_daily_data scenario fresh)) ''.results/output_20230807_093000.csv'' =
     Some [headers,
        [JStr ''A1'', JStr ''2020-01-01'', JNum ''32'', JNum ''20'', JNum ''0.1''],
        [JStr ''A1'', JStr ''2020-01-02'', JNum ''30'', JNum ''18'', JNum ''0.0'']]"
  by (simp_all add: fetch_prism_daily_data_def get_start_date_input_def get_end_date_input_def
      valid_date_iff codes_def unicode_decimal_def decimal_zeros_def
      import_coordinates_def return_local_def endswith_def
      run_defs scenario_defs error_report_def str_int_400)

end
